theory Spec2Isabelle
  imports Main "HOL-Library.AList" "HOL-Library.Sublist"
begin

section \<open>Python string primitives used by both scripts\<close>

text \<open>
  Strings are ASCII character lists. \<open>str_in sub s\<close> is Python's \<open>sub in s\<close> on
  strings (substring test).
\<close>

fun str_in :: "string \<Rightarrow> string \<Rightarrow> bool" where
  "str_in sub [] = (sub = [])"
| "str_in sub (c # cs) = (prefix sub (c # cs) \<or> str_in sub cs)"

text \<open>\<open>str.endswith\<close>.\<close>

definition endswith :: "string \<Rightarrow> string \<Rightarrow> bool" where
  "endswith s suf = suffix suf s"

text \<open>
  The characters \<open>str.split()\<close> and \<open>str.strip()\<close> treat as whitespace (ASCII range):
  tab, line feed, vertical tab, form feed, carriage return, the four separators
  0x1c..0x1f and the space.
\<close>

definition is_space :: "char \<Rightarrow> bool" where
  "is_space c = (let n = of_char c :: nat in (9 \<le> n \<and> n \<le> 13) \<or> (28 \<le> n \<and> n \<le> 32))"

text \<open>
  \<open>split_ws s\<close> is \<open>s.split()\<close>: the maximal runs of non-whitespace characters, in
  order. The accumulator \<open>cur\<close> holds the run being read.
\<close>

fun split_ws_aux :: "string \<Rightarrow> string \<Rightarrow> string list" where
  "split_ws_aux cur [] = (if cur = [] then [] else [cur])"
| "split_ws_aux cur (c # cs) =
     (if is_space c then (if cur = [] then split_ws_aux [] cs else cur # split_ws_aux [] cs)
      else split_ws_aux (cur @ [c]) cs)"

definition split_ws :: "string \<Rightarrow> string list" where
  "split_ws s = split_ws_aux [] s"

text \<open>
  \<open>split_on sep s\<close> is \<open>s.split(sep)\<close> for a one-character separator: every
  occurrence of the separator cuts, empty pieces are kept, and the result is never empty.
\<close>

fun split_on_aux :: "char \<Rightarrow> string \<Rightarrow> string \<Rightarrow> string list" where
  "split_on_aux sep cur [] = [cur]"
| "split_on_aux sep cur (c # cs) =
     (if c = sep then cur # split_on_aux sep [] cs else split_on_aux sep (cur @ [c]) cs)"

definition split_on :: "char \<Rightarrow> string \<Rightarrow> string list" where
  "split_on sep s = split_on_aux sep [] s"

text \<open>\<open>str.strip()\<close>: whitespace removed at both ends.\<close>

definition strip :: "string \<Rightarrow> string" where
  "strip s = rev (dropWhile is_space (rev (dropWhile is_space s)))"

section \<open>Enrichment: the data-type classification of \<open>build_sqlite\<close>\<close>

text \<open>
  Lines 439-450 of \<open>r2r_sftp_pull.py\<close>. The data type is the string the script stores
  in the \<open>DATA_TYPE\<close> column. \<open>scan_wcsd\<close> is the \<open>for string in wcsd_str\<close> loop
  with its \<open>break\<close>.
\<close>

definition wcsd_str :: "string list" where
  "wcsd_str = [''[water column]'', ''[Watercolumn]'', ''[Water Column]'', ''[watercolumn]'']"

fun scan_wcsd :: "string list \<Rightarrow> string \<Rightarrow> string \<Rightarrow> string" where
  "scan_wcsd [] instrument data_type = data_type"
| "scan_wcsd (s # ss) instrument data_type =
     (if str_in s instrument then ''WCSD'' else scan_wcsd ss instrument data_type)"

definition classify_data_type :: "string \<Rightarrow> string \<Rightarrow> string" where
  "classify_data_type instrument_type instrument =
     (if instrument_type = ''Multibeam Sonar'' then scan_wcsd wcsd_str instrument ''Multibeam''
      else if instrument_type = ''Splitbeam Sonar'' then ''WCSD''
      else ''Trackline'')"

section \<open>Exceptions and the inventory table\<close>

text \<open>
  The exceptions the two scripts can raise by their own operations. A function that can
  raise returns \<open>exn + 'a\<close>, with \<open>Inl\<close> for the exception.
\<close>

datatype exn = ValueError | IndexError | TypeError | AttributeError | OverflowError
  | RequestException | SqliteError | OSError

text \<open>One row of the \<open>DATASETS\<close> table, with the columns \<open>build_sqlite\<close> inserts.\<close>

record dataset =
  fileset_id :: string
  cruise_id :: string
  platform_name :: string
  instrument_name :: string
  instrument_type :: string
  size_bytes :: int
  human_readable :: string
  file_count :: int
  package_path :: string
  date_dir :: string
  data_type :: string
  been_pulled :: string

section \<open>\<open>convert_size\<close>\<close>

text \<open>
  \<open>convert_size\<close> (the same in both scripts) returns \<open>"0B"\<close> for zero and calls
  \<open>math.log(pkg_bytes, 1024)\<close> otherwise, which raises \<open>ValueError\<close> (math domain
  error) for a negative argument. For a positive argument the result is computed in
  floating point (\<open>math.log\<close>, \<open>math.pow\<close>, \<open>round\<close>) and indexes the tuple of unit
  names; that branch is the parameter \<open>fp\<close>, which gives the rendered string or the
  exception raised there.
\<close>

definition convert_size :: "(int \<Rightarrow> exn + string) \<Rightarrow> int \<Rightarrow> exn + string" where
  "convert_size fp pkg_bytes =
     (if pkg_bytes = 0 then Inr ''0B''
      else if pkg_bytes < 0 then Inl ValueError
      else fp pkg_bytes)"

section \<open>Selection: \<open>query_sqlite\<close>\<close>

text \<open>
  \<open>int(s)\<close> on a string, for base ten: surrounding whitespace is ignored, one sign is
  allowed, and the digits may be grouped by single underscores. \<open>None\<close> stands for the
  \<open>ValueError\<close> of a string that is no integer literal.
\<close>

definition is_digit :: "char \<Rightarrow> bool" where
  "is_digit c = (let n = of_char c :: nat in 48 \<le> n \<and> n \<le> 57)"

definition dec_val :: "string \<Rightarrow> int" where
  "dec_val ds = foldl (\<lambda>acc c. 10 * acc + (int (of_char c) - 48)) 0 ds"

definition py_int :: "string \<Rightarrow> int option" where
  "py_int str =
     (let s = strip str;
          neg = (s \<noteq> [] \<and> hd s = CHR ''-'');
          body = (if s \<noteq> [] \<and> (hd s = CHR ''-'' \<or> hd s = CHR ''+'') then tl s else s);
          groups = split_on CHR ''_'' body
      in if list_all (\<lambda>g. g \<noteq> [] \<and> list_all is_digit g) groups
         then Some ((if neg then - 1 else 1) * dec_val (concat groups))
         else None)"

text \<open>
  The planner loop of lines 567-580. \<open>package_dict\<close> is a Python dictionary, kept as an
  association list in insertion order: assigning to a key that is present replaces its
  value in place, assigning to a new key appends (\<open>AList.update\<close>). An entry is
  the list \<open>[hr, path_to_files, size_bytes]\<close>.
\<close>

type_synonym pkg_entry = "string \<times> string \<times> int"

definition package_id :: "dataset \<Rightarrow> string" where
  "package_id entry = cruise_id entry @ '' '' @ instrument_name entry"

definition pkg_entry_of :: "dataset \<Rightarrow> pkg_entry" where
  "pkg_entry_of entry = (human_readable entry, package_path entry, size_bytes entry)"

fun accumulate :: "int \<Rightarrow> dataset list \<Rightarrow> int \<times> (string \<times> pkg_entry) list
    \<Rightarrow> int \<times> (string \<times> pkg_entry) list" where
  "accumulate free_space [] st = st"
| "accumulate free_space (entry # rest) (byte_counter, package_dict) =
     (if byte_counter < free_space
      then accumulate free_space rest
             (byte_counter + size_bytes entry,
              AList.update (package_id entry) (pkg_entry_of entry) package_dict)
      else accumulate free_space rest (byte_counter, package_dict))"

text \<open>
  The body of the loop over \<open>choices.split(',')\<close> (lines 596-606) for one token: the
  set of numbers the token adds to \<open>choice_numbers\<close>, or the \<open>ValueError\<close> of a
  failed \<open>int\<close> or of unpacking a split that has not exactly two parts.
\<close>

definition parse_choice :: "string \<Rightarrow> exn + int set" where
  "parse_choice choice =
     (let choice_stripped = strip choice in
      if CHR ''-'' \<in> set choice then
        (case split_on CHR ''-'' choice_stripped of
           [start, end] \<Rightarrow>
             (case py_int (strip start) of
                None \<Rightarrow> Inl ValueError
              | Some s \<Rightarrow>
                  (case py_int (strip end) of
                     None \<Rightarrow> Inl ValueError
                   | Some e \<Rightarrow> Inr (set [s..e])))
         | _ \<Rightarrow> Inl ValueError)
      else
        (case py_int choice_stripped of
           None \<Rightarrow> Inl ValueError
         | Some i \<Rightarrow> Inr {i}))"

fun collect_choices :: "string list \<Rightarrow> int set \<Rightarrow> exn + int set" where
  "collect_choices [] choice_numbers = Inr choice_numbers"
| "collect_choices (choice # rest) choice_numbers =
     (case parse_choice choice of
        Inl e \<Rightarrow> Inl e
      | Inr new \<Rightarrow> collect_choices rest (choice_numbers \<union> new))"

text \<open>
  \<open>query_sqlite\<close> from the rows the query returned (\<open>results\<close>, the rows with
  \<open>BEEN_PULLED = "N"\<close> of the requested data type, in the order of the table), the byte
  budget \<open>free_space\<close> and the line the user types (\<open>choices\<close>). \<open>Inr None\<close> is the
  \<open>None\<close> the function returns when it gives no download list; \<open>Inl\<close> is an exception
  that leaves the function.
\<close>

definition query_sqlite :: "(int \<Rightarrow> exn + string) \<Rightarrow> dataset list \<Rightarrow> int \<Rightarrow> string
    \<Rightarrow> exn + string list option" where
  "query_sqlite fp results free_space choices =
     (let package_dict = snd (accumulate free_space results (0, [])) in
      if length package_dict > 0 then
        (case collect_choices (split_on CHR '','' choices) {} of
           Inl e \<Rightarrow> Inl e
         | Inr choice_numbers \<Rightarrow>
             (let valid_choices =
                    Set.filter (\<lambda>choice. 1 \<le> choice \<and> choice \<le> int (length package_dict))
                      choice_numbers
              in if card valid_choices \<noteq> card choice_numbers then Inr None
                 else
                   (let selected_packages =
                          map (\<lambda>choice. map fst package_dict ! nat (choice - 1))
                            (sorted_list_of_set valid_choices);
                        download_list =
                          map (\<lambda>pkg. fst (snd (the (map_of package_dict pkg)))) selected_packages;
                        total_data_size =
                          sum_list (map (\<lambda>pkg. snd (snd (the (map_of package_dict pkg))))
                            selected_packages)
                    in (case convert_size fp total_data_size of
                          Inl e \<Rightarrow> Inl e
                        | Inr total_hr \<Rightarrow>
                            Inr (if length download_list > 0 then Some download_list else None)))))
      else Inr None)"

text \<open>
  A ghost list for the planner loop: the rows for which the loop takes the branch
  \<open>byte_counter < free_space\<close>, in order. The source keeps only the counter and the
  dictionary; \<open>accumulate_taken\<close> below relates them to this list.
\<close>

fun taken :: "int \<Rightarrow> int \<Rightarrow> dataset list \<Rightarrow> dataset list" where
  "taken B bc [] = []"
| "taken B bc (e # es) = (if bc < B then e # taken B (bc + size_bytes e) es else taken B bc es)"

text \<open>Rows used as concrete inputs: a row is built from the fields that vary.\<close>

definition mk_row :: "string \<Rightarrow> string \<Rightarrow> string \<Rightarrow> string \<Rightarrow> int \<Rightarrow> string \<Rightarrow> string \<Rightarrow> dataset" where
  "mk_row fid cruise instr itype bytes path dtype =
     \<lparr>fileset_id = fid, cruise_id = cruise, platform_name = ''Atlantis'',
      instrument_name = instr, instrument_type = itype, size_bytes = bytes,
      human_readable = [], file_count = 1, package_path = path,
      date_dir = ''2022-05-01'', data_type = dtype, been_pulled = ''N''\<rparr>"

text \<open>
  The tokens a selection may hold, in the words of the specification: an index of the
  displayed list of \<open>n\<close> packages, or an inclusive dash-range \<open>a-b\<close> of indices of
  the list, that is, two integers around one dash, both of them indices of the list, the
  first not above the second. \<open>range_ends\<close> reads the two integers of a token
  \<open>a-b\<close>. A reversed range is a token \<open>a-b\<close> whose first integer is above the second:
  whatever its ends are, it is not a range of the specification unless they are in order.
\<close>

definition index_token :: "nat \<Rightarrow> string \<Rightarrow> bool" where
  "index_token n tok \<longleftrightarrow> (\<exists>i. py_int tok = Some i \<and> 1 \<le> i \<and> i \<le> int n)"

definition range_ends :: "string \<Rightarrow> (int \<times> int) option" where
  "range_ends tok =
     (case split_on CHR ''-'' (strip tok) of
        [a, b] \<Rightarrow>
          (case py_int a of
             None \<Rightarrow> None
           | Some s \<Rightarrow> (case py_int b of None \<Rightarrow> None | Some e \<Rightarrow> Some (s, e)))
      | _ \<Rightarrow> None)"

definition range_token :: "nat \<Rightarrow> string \<Rightarrow> bool" where
  "range_token n tok \<longleftrightarrow>
     (case range_ends tok of
        None \<Rightarrow> False
      | Some (s, e) \<Rightarrow> 1 \<le> s \<and> s \<le> e \<and> e \<le> int n)"

definition reversed_range :: "string \<Rightarrow> bool" where
  "reversed_range tok \<longleftrightarrow>
     (case range_ends tok of
        None \<Rightarrow> False
      | Some (s, e) \<Rightarrow> e < s)"

definition sel_rows :: "dataset list" where
  "sel_rows = [mk_row ''10001'' ''AT01'' ''EM122'' ''Multibeam Sonar'' 4000000000 ''/ngdc/2022-05-01/AT01_10001_em122.tar'' ''Multibeam'',
               mk_row ''10002'' ''AT02'' ''EM122'' ''Multibeam Sonar'' 4000000000 ''/ngdc/2022-05-01/AT02_10002_em122.tar'' ''Multibeam'',
               mk_row ''10003'' ''AT03'' ''EM122'' ''Multibeam Sonar'' 4000000000 ''/ngdc/2022-05-02/AT03_10003_em122.tar'' ''Multibeam'']"

text \<open>
  Three pending rows of one data type, the first and the third of the same cruise and
  instrument (the same package delivered again under a later date).
\<close>

definition collide_rows :: "dataset list" where
  "collide_rows = [mk_row ''30001'' ''AT01'' ''EM122'' ''Multibeam Sonar'' 5 ''/ngdc/2022-05-01/AT01_30001_em122.tar'' ''Multibeam'',
                   mk_row ''30002'' ''AT02'' ''EM122'' ''Multibeam Sonar'' 5 ''/ngdc/2022-05-01/AT02_30002_em122.tar'' ''Multibeam'',
                   mk_row ''30003'' ''AT01'' ''EM122'' ''Multibeam Sonar'' 100 ''/ngdc/2022-05-03/AT01_30003_em122.tar'' ''Multibeam'']"

section \<open>Discovery: \<open>connect_to_sftp\<close> and \<open>check_date_dirs\<close>\<close>

text \<open>
  What the scripts append to their global list \<open>errors\<close>: a message, an exception
  object, or (in \<open>copy_packages\<close>) the list of lines of a standard error stream.
\<close>

datatype diag = Msg string | Exc exn | Lines "string list"

text \<open>
  The result of an external command: \<open>subprocess.run\<close> with captured output. The
  remote listing \<open>sftp ... ls -l path\<close> is the function \<open>ls\<close> of the environment, from
  the path to the completed process. \<open>strptime\<close> is \<open>datetime.strptime(date, "%Y-%m-%d")\<close>,
  giving year, month and day, or \<open>None\<close> for its \<open>ValueError\<close>.
\<close>

record process =
  returncode :: int
  stdout :: string
  stderr :: string

record sftp_env =
  platform :: string
  strptime :: "string \<Rightarrow> (int \<times> int \<times> int) option"
  ls :: "string \<Rightarrow> process"

text \<open>
  \<open>connect_to_sftp\<close> returns the list of date directories, the integer \<open>0\<close> when the
  listing matched no objects, or \<open>None\<close> (it falls off its end) after any other listing
  error. \<open>r2r_dates.remove('README')\<close> raises \<open>ValueError\<close> when the listing has no
  \<open>README\<close>.
\<close>

datatype date_list = Dates "string list" | DatesZero | DatesNone

definition is_production :: "sftp_env \<Rightarrow> bool" where
  "is_production env \<longleftrightarrow> platform env \<noteq> ''Darwin'' \<and> platform env \<noteq> ''Windows''"

fun last_words :: "string list \<Rightarrow> string list" where
  "last_words [] = []"
| "last_words (line # rest) =
     (let parts = split_ws line in
      if parts \<noteq> [] then last parts # last_words rest else last_words rest)"

definition connect_to_sftp :: "sftp_env \<Rightarrow> string \<Rightarrow> string \<Rightarrow> diag list
    \<Rightarrow> exn + date_list \<times> diag list" where
  "connect_to_sftp env sftp_server file_path errors =
     (let process = ls env (if is_production env then file_path else ''/data'') in
      if returncode process \<noteq> 0 then
        (if str_in ''matched no objects'' (stderr process) then Inr (DatesZero, errors)
         else Inr (DatesNone, errors @ [Msg (''Error in  '' @ sftp_server)]))
      else
        (let return_list = tl (split_on CHR 0x0A (stdout process));
             r2r_dates = last_words return_list
         in if ''README'' \<in> set r2r_dates
            then Inr (Dates (remove1 ''README'' r2r_dates), errors)
            else Inl ValueError))"

text \<open>
  The loop over the lines of one directory listing (lines 332-346). A candidate is the
  pair of \<open>r2r_id\<close> and \<open>package_path\<close>. \<open>line.split()[-1]\<close> raises \<open>IndexError\<close> on
  a blank line and \<open>id_str.split('_')[-2]\<close> raises it on a name with no underscore;
  the handler appends the exception to \<open>errors\<close> and goes on with the next line.
\<close>

type_synonym candidate = "string \<times> string"

definition parse_line :: "string \<Rightarrow> string \<Rightarrow> exn + candidate option" where
  "parse_line dir_path line =
     (let words = split_ws line in
      if words = [] then Inl IndexError
      else
        (let id_str = last words in
         if \<not> str_in ''.md5'' id_str then
           (let package_path = dir_path @ ''/'' @ id_str;
                segments = split_on CHR ''_'' id_str
            in if length segments < 2 then Inl IndexError
               else Inr (Some (segments ! (length segments - 2), package_path)))
         else Inr None))"

fun parse_lines :: "string \<Rightarrow> string list \<Rightarrow> candidate list \<times> diag list
    \<Rightarrow> candidate list \<times> diag list" where
  "parse_lines dir_path [] st = st"
| "parse_lines dir_path (line # rest) (found, errors) =
     (case parse_line dir_path line of
        Inl e \<Rightarrow> parse_lines dir_path rest (found, errors @ [Exc e])
      | Inr None \<Rightarrow> parse_lines dir_path rest (found, errors)
      | Inr (Some c) \<Rightarrow> parse_lines dir_path rest (found @ [c], errors))"

text \<open>
  The state of the loop over the remote dates: the dictionary \<open>date_dir_inventory\<close> (an
  association list in insertion order), the counter, the global \<open>errors\<close>, and a ghost
  list \<open>listed\<close> of the directories whose listing was requested.
\<close>

record disc_state =
  inventory :: "(string \<times> candidate list) list"
  new_dir_count :: nat
  errors :: "diag list"
  listed :: "string list"

definition date_dir_of :: "sftp_env \<Rightarrow> string \<Rightarrow> string \<Rightarrow> string" where
  "date_dir_of env file_path date =
     (if is_production env then file_path @ ''/'' @ date else ''/data/'' @ date)"

definition after_cutoff :: "int \<times> int \<times> int \<Rightarrow> bool" where
  "after_cutoff dt = (case dt of (y, m, d) \<Rightarrow>
     y > 2021 \<or> (y = 2021 \<and> (m > 1 \<or> (m = 1 \<and> d > 1))))"

text \<open>
  \<open>date_step\<close> is the body of the loop of lines 298-349 for one remote date, and
  \<open>scan_dates\<close> the loop. The result is \<open>Inl\<close> for the \<open>ValueError\<close> of a date
  that does not parse (nothing in the function handles it), and otherwise the state with
  a flag that is \<open>True\<close> when the function was left by the \<open>return 0\<close> of line 317.
\<close>

definition date_step :: "sftp_env \<Rightarrow> string \<Rightarrow> string list \<Rightarrow> string \<Rightarrow> disc_state
    \<Rightarrow> exn + bool \<times> disc_state" where
  "date_step env file_path db_date_list date st =
     (if date \<notin> set db_date_list then
        (case strptime env date of
           None \<Rightarrow> Inl ValueError
         | Some dt \<Rightarrow>
             if after_cutoff dt then
               (let ddir = date_dir_of env file_path date;
                    process = ls env ddir;
                    st1 = st\<lparr>listed := listed st @ [ddir]\<rparr>
                in if returncode process \<noteq> 0 then
                     (if str_in ''matched no objects'' (stderr process) then Inr (True, st1)
                      else Inr (False,
                             st1\<lparr>errors := errors st1 @ [Msg (''Error in  '' @ file_path)]\<rparr>))
                   else
                     (let return_list = butlast (tl (split_on CHR 0x0A (stdout process))) in
                      if length return_list > 0 then
                        (let (found, errs) = parse_lines ddir return_list ([], errors st1) in
                         Inr (False,
                           st1\<lparr>inventory := AList.update date found (inventory st1),
                                new_dir_count := new_dir_count st1 + 1,
                                errors := errs\<rparr>))
                      else Inr (False, st1)))
             else Inr (False, st))
      else Inr (False, st))"

fun scan_dates :: "sftp_env \<Rightarrow> string \<Rightarrow> string list \<Rightarrow> string list \<Rightarrow> disc_state
    \<Rightarrow> exn + bool \<times> disc_state" where
  "scan_dates env file_path db_date_list [] st = Inr (False, st)"
| "scan_dates env file_path db_date_list (date # rest) st =
     (case date_step env file_path db_date_list date st of
        Inl e \<Rightarrow> Inl e
      | Inr (returned0, st1) \<Rightarrow>
          if returned0 then Inr (True, st1)
          else scan_dates env file_path db_date_list rest st1)"


text \<open>
  The dates of the table without repetition, in the order of first occurrence (lines
  288-294).
\<close>

fun dedup_dates :: "dataset list \<Rightarrow> string list \<Rightarrow> string list" where
  "dedup_dates [] db_date_list = db_date_list"
| "dedup_dates (row # rows) db_date_list =
     (if date_dir row \<notin> set db_date_list then dedup_dates rows (db_date_list @ [date_dir row])
      else dedup_dates rows db_date_list)"

text \<open>
  \<open>check_date_dirs\<close> for a database file that exists (\<open>database_connect\<close> raises
  \<open>FileNotFoundError\<close> otherwise) and a query that succeeds; \<open>db\<close> is the table. It
  returns the dictionary, or the integer \<open>0\<close>. Iterating over a \<open>date_list\<close> that is
  \<open>0\<close> or \<open>None\<close> raises \<open>TypeError\<close>.
\<close>

datatype discovered = Inventory "(string \<times> candidate list) list" | Zero

definition check_date_dirs :: "sftp_env \<Rightarrow> date_list \<Rightarrow> string \<Rightarrow> dataset list \<Rightarrow> diag list
    \<Rightarrow> exn + discovered \<times> diag list" where
  "check_date_dirs env dl file_path db errs =
     (case dl of
        Dates ds \<Rightarrow>
          (case scan_dates env file_path (dedup_dates db []) ds
                  \<lparr>inventory = [], new_dir_count = 0, errors = errs, listed = []\<rparr> of
             Inl e \<Rightarrow> Inl e
           | Inr (returned0, st) \<Rightarrow>
               if returned0 then Inr (Zero, errors st)
               else Inr (Inventory (inventory st), errors st))
      | _ \<Rightarrow> Inl TypeError)"


text \<open>
  Words for the lines of a listing: the name of the entry is the last word of the line;
  a package line has a name that contains no \<open>.md5\<close> and at least one underscore; a
  malformed line is blank, or has a name that contains neither \<open>.md5\<close> nor an
  underscore.
\<close>

definition entry_name :: "string \<Rightarrow> string" where
  "entry_name line = last (split_ws line)"

definition package_line :: "string \<Rightarrow> bool" where
  "package_line line \<longleftrightarrow>
     split_ws line \<noteq> [] \<and> \<not> sublist ''.md5'' (entry_name line) \<and> CHR ''_'' \<in> set (entry_name line)"

definition malformed_line :: "string \<Rightarrow> bool" where
  "malformed_line line \<longleftrightarrow>
     split_ws line = [] \<or> (\<not> sublist ''.md5'' (entry_name line) \<and> CHR ''_'' \<notin> set (entry_name line))"

definition second_to_last :: "string list \<Rightarrow> string" where
  "second_to_last segments = last (butlast segments)"




section \<open>Enrichment: \<open>build_sqlite\<close>\<close>

text \<open>
  The metadata provider answers a fileset id with the fields the script reads, or with
  the exception the request or the access to the answer raises. \<open>render_size\<close> is the
  floating-point branch of \<open>convert_size\<close>. The schema of the table is not part of
  the scripts: \<open>accepts\<close> says whether the table takes a row (otherwise the insert
  raises \<open>sqlite3.Error\<close> and is rolled back).
\<close>

record metadata =
  files :: int
  total_bytes :: int
  make_model_name :: string
  device_name :: string
  meta_cruise_id :: string
  vessel_name :: string

record enrich_env =
  provider :: "string \<Rightarrow> exn + metadata"
  render_size :: "int \<Rightarrow> exn + string"
  accepts :: "dataset list \<Rightarrow> dataset \<Rightarrow> bool"

definition new_row :: "string \<Rightarrow> string \<Rightarrow> string \<Rightarrow> string \<Rightarrow> metadata \<Rightarrow> dataset" where
  "new_row r2r_package_id server_path date hr m =
     \<lparr>fileset_id = r2r_package_id, cruise_id = meta_cruise_id m,
      platform_name = vessel_name m, instrument_name = make_model_name m,
      instrument_type = device_name m, size_bytes = total_bytes m,
      human_readable = hr, file_count = files m, package_path = server_path,
      date_dir = date,
      data_type = classify_data_type (device_name m) (make_model_name m),
      been_pulled = ''N''\<rparr>"

fun enrich_all :: "enrich_env \<Rightarrow> string \<Rightarrow> candidate list \<Rightarrow> dataset list \<times> diag list
    \<Rightarrow> dataset list \<times> diag list" where
  "enrich_all env date [] st = st"
| "enrich_all env date ((r2r_package_id, server_path) # rest) (db, errs) =
     (case provider env r2r_package_id of
        Inl e \<Rightarrow> enrich_all env date rest (db, errs @ [Exc e])
      | Inr m \<Rightarrow>
          (case convert_size (render_size env) (total_bytes m) of
             Inl e \<Rightarrow> enrich_all env date rest (db, errs @ [Exc e])
           | Inr hr \<Rightarrow>
               (let row = new_row r2r_package_id server_path date hr m in
                if accepts env db row then enrich_all env date rest (db @ [row], errs)
                else enrich_all env date rest (db, errs @ [Exc SqliteError]))))"

fun build_dates :: "enrich_env \<Rightarrow> (string \<times> candidate list) list \<Rightarrow> dataset list \<times> diag list
    \<Rightarrow> dataset list \<times> diag list" where
  "build_dates env [] st = st"
| "build_dates env ((date, values_list) # rest) st =
     build_dates env rest (enrich_all env date values_list st)"

text \<open>\<open>inventory_dict.items()\<close> raises \<open>AttributeError\<close> when the argument is \<open>0\<close>.\<close>

definition build_sqlite :: "enrich_env \<Rightarrow> discovered \<Rightarrow> dataset list \<Rightarrow> diag list
    \<Rightarrow> exn + dataset list \<times> diag list" where
  "build_sqlite env inventory_dict db errs =
     (case inventory_dict of
        Zero \<Rightarrow> Inl AttributeError
      | Inventory items \<Rightarrow> Inr (build_dates env items (db, errs)))"

text \<open>Lines 751-753 of the script: the three calls that populate the table.\<close>

definition populate_db :: "sftp_env \<Rightarrow> enrich_env \<Rightarrow> string \<Rightarrow> string \<Rightarrow> dataset list
    \<Rightarrow> exn + dataset list \<times> diag list" where
  "populate_db env eenv r2r_server_path ngdc_files_path db =
     (case connect_to_sftp env r2r_server_path ngdc_files_path [] of
        Inl e \<Rightarrow> Inl e
      | Inr (all_dates, errs) \<Rightarrow>
          (case check_date_dirs env all_dates ngdc_files_path db errs of
             Inl e \<Rightarrow> Inl e
           | Inr (new_inventory, errs') \<Rightarrow> build_sqlite eenv new_inventory db errs'))"

section \<open>A concrete remote archive\<close>

text \<open>
  The remote archive used as concrete input: the directory \<open>/ngdc\<close> lists a
  \<open>README\<close> and the dates \<open>2022-05-01\<close>, \<open>2022-05-02\<close> and \<open>2022-05-03\<close>. The
  first holds one archive and its manifest, the listing of the second matches no
  objects, the third holds one archive, one name without underscore and one name that
  contains \<open>.md5\<close> without ending in it.
\<close>

definition listing :: "string \<Rightarrow> process" where
  "listing out = \<lparr>returncode = 0, stdout = out, stderr = []\<rparr>"

definition no_match :: process where
  "no_match = \<lparr>returncode = 1, stdout = [], stderr = ''ls: matched no objects''\<rparr>"

definition ex_ls :: "string \<Rightarrow> process" where
  "ex_ls path =
     (if path = ''/ngdc'' then
        listing (''sftp> ls -l /ngdc'' @ [CHR 0x0A] @
                 ''drwxr-xr-x 2 r2r r2r 4096 May 1 2022 2022-05-01'' @ [CHR 0x0A] @
                 ''drwxr-xr-x 2 r2r r2r 4096 May 2 2022 2022-05-02'' @ [CHR 0x0A] @
                 ''drwxr-xr-x 2 r2r r2r 4096 May 3 2022 2022-05-03'' @ [CHR 0x0A] @
                 ''-rw-r--r-- 1 r2r r2r 120 May 1 2022 README'' @ [CHR 0x0A])
      else if path = ''/ngdc/2022-05-01'' then
        listing (''sftp> ls -l /ngdc/2022-05-01'' @ [CHR 0x0A] @
                 ''-rw-r--r-- 1 r2r r2r 4000 May 1 2022 CRUISE_12345_01.tar'' @ [CHR 0x0A] @
                 ''-rw-r--r-- 1 r2r r2r 52 May 1 2022 CRUISE_12345_01.tar.md5'' @ [CHR 0x0A])
      else if path = ''/ngdc/2022-05-03'' then
        listing (''sftp> ls -l /ngdc/2022-05-03'' @ [CHR 0x0A] @
                 ''-rw-r--r-- 1 r2r r2r 10 May 3 2022 NOTES'' @ [CHR 0x0A] @
                 ''-rw-r--r-- 1 r2r r2r 4000 May 3 2022 AT50_54321_01.md5sums.tar'' @ [CHR 0x0A] @
                 ''-rw-r--r-- 1 r2r r2r 4000 May 3 2022 AT50_54321_01.tar'' @ [CHR 0x0A])
      else no_match)"

definition ex_strptime :: "string \<Rightarrow> (int \<times> int \<times> int) option" where
  "ex_strptime date =
     (if date = ''2022-05-01'' then Some (2022, 5, 1)
      else if date = ''2022-05-02'' then Some (2022, 5, 2)
      else if date = ''2022-05-03'' then Some (2022, 5, 3)
      else None)"

definition ex_env :: sftp_env where
  "ex_env = \<lparr>platform = ''Linux'', strptime = ex_strptime, ls = ex_ls\<rparr>"

definition ex_metadata :: "string \<Rightarrow> exn + metadata" where
  "ex_metadata fid =
     (if fid = ''12345'' \<or> fid = ''54321'' then
        Inr \<lparr>files = 12, total_bytes = 4000, make_model_name = ''Kongsberg EM122'',
             device_name = ''Multibeam Sonar'', meta_cruise_id = ''CRUISE'',
             vessel_name = ''Atlantis''\<rparr>
      else Inl RequestException)"

definition ex_enrich :: enrich_env where
  "ex_enrich = \<lparr>provider = ex_metadata, render_size = (\<lambda>n. Inr ''3.91 KB''),
                 accepts = (\<lambda>db row. True)\<rparr>"

definition ex_items :: "(string \<times> candidate list) list" where
  "ex_items = [(''2022-05-01'', [(''12345'', ''/ngdc/2022-05-01/CRUISE_12345_01.tar'')]),
               (''2022-05-03'', [(''54321'', ''/ngdc/2022-05-03/AT50_54321_01.tar'')])]"

definition ex_db :: "dataset list" where
  "ex_db = [new_row ''12345'' ''/ngdc/2022-05-01/CRUISE_12345_01.tar'' ''2022-05-01'' ''3.91 KB''
              \<lparr>files = 12, total_bytes = 4000, make_model_name = ''Kongsberg EM122'',
               device_name = ''Multibeam Sonar'', meta_cruise_id = ''CRUISE'',
               vessel_name = ''Atlantis''\<rparr>,
            new_row ''54321'' ''/ngdc/2022-05-03/AT50_54321_01.tar'' ''2022-05-03'' ''3.91 KB''
              \<lparr>files = 12, total_bytes = 4000, make_model_name = ''Kongsberg EM122'',
               device_name = ''Multibeam Sonar'', meta_cruise_id = ''CRUISE'',
               vessel_name = ''Atlantis''\<rparr>]"

section \<open>The free-space probe of \<open>r2r_sftp_pull.py\<close>\<close>

text \<open>
  \<open>re.search('\d+', raw_info).group()\<close>: the first maximal run of digits, or \<open>None\<close>
  when the text has no digit (the call of \<open>.group()\<close> then raises
  \<open>AttributeError\<close>).
\<close>

definition first_digits :: "string \<Rightarrow> string option" where
  "first_digits raw_info =
     (let rest = dropWhile (\<lambda>c. \<not> is_digit c) raw_info in
      if rest = [] then None else Some (takeWhile is_digit rest))"

text \<open>
  \<open>landing_space_bytes\<close> returns the boolean \<open>False\<close> or a tuple of the free space and
  a flag. \<open>df\<close> is the completed process that \<open>run_subprocess\<close> hands back for
  \<open>df -B1 --output=avail\<close> on the landing space; \<open>fp\<close> is the floating-point branch of
  \<open>convert_size\<close>.
\<close>

datatype space_check = SpaceFalse | SpaceTuple int bool

definition landing_space_bytes :: "(int \<Rightarrow> exn + string) \<Rightarrow> process \<Rightarrow> int \<Rightarrow> diag list
    \<Rightarrow> space_check \<times> diag list" where
  "landing_space_bytes fp df minimum errs =
     (let min_space = minimum * 1024 * 1024 * 1024 in
      if returncode df \<noteq> 0 then (SpaceFalse, errs)
      else
        (case first_digits (stdout df) of
           None \<Rightarrow> (SpaceFalse, errs @ [Exc AttributeError])
         | Some digits \<Rightarrow>
             (let space = dec_val digits;
                  free_space = space - min_space
              in case convert_size fp free_space of
                   Inl e \<Rightarrow> (SpaceFalse, errs @ [Exc e])
                 | Inr hr \<Rightarrow>
                     if space \<ge> min_space then (SpaceTuple free_space True, errs)
                     else (SpaceTuple free_space False, errs))))"

text \<open>
  Indexing the result, as lines 758 and 761 do with \<open>space_check[1]\<close> and
  \<open>space_check[0]\<close>: a boolean is not subscriptable.
\<close>

definition space_flag :: "space_check \<Rightarrow> exn + bool" where
  "space_flag r = (case r of SpaceFalse \<Rightarrow> Inl TypeError | SpaceTuple free_space flag \<Rightarrow> Inr flag)"

definition space_free :: "space_check \<Rightarrow> exn + int" where
  "space_free r = (case r of SpaceFalse \<Rightarrow> Inl TypeError | SpaceTuple free_space flag \<Rightarrow> Inr free_space)"

text \<open>
  \<open>get_data_type\<close>: the answer typed at the prompt is \<open>choice\<close>. The function returns
  \<open>None\<close> when there is no free space, when the number is not 1, 2 or 3, and after the
  \<open>ValueError\<close> of an answer that is no integer. An empty answer and the number 0 both
  satisfy \<open>choice == 1 or not choice\<close>.
\<close>

definition get_data_type :: "bool \<Rightarrow> string \<Rightarrow> diag list \<Rightarrow> string option \<times> diag list" where
  "get_data_type free_space choice errs =
     (if free_space then
        (if choice \<noteq> [] then
           (case py_int choice of
              None \<Rightarrow> (None, errs @ [Exc ValueError])
            | Some n \<Rightarrow>
                if n = 1 \<or> n = 0 then (Some ''WCSD'', errs)
                else if n = 2 then (Some ''Multibeam'', errs)
                else if n = 3 then (Some ''Trackline'', errs)
                else (None, errs))
         else (Some ''WCSD'', errs))
      else (None, errs))"

text \<open>
  The query of \<open>query_sqlite\<close>: the rows with \<open>BEEN_PULLED = "N"\<close> whose data type is
  \<open>LIKE\<close> the requested one, in the order of the table. SQLite's \<open>LIKE\<close> ignores the
  case of ASCII letters; \<open>%\<close> matches any run of characters and \<open>_\<close> one character. A
  \<open>NULL\<close> pattern (the \<open>None\<close> of \<open>get_data_type\<close>) matches no row.
\<close>

definition ascii_lower :: "char \<Rightarrow> char" where
  "ascii_lower c = (let n = of_char c :: nat in if 65 \<le> n \<and> n \<le> 90 then char_of (n + 32) else c)"

fun sql_like :: "string \<Rightarrow> string \<Rightarrow> bool" where
  "sql_like [] [] = True"
| "sql_like [] (c # cs) = False"
| "sql_like (p # ps) [] = (p = CHR ''%'' \<and> sql_like ps [])"
| "sql_like (p # ps) (c # cs) =
     (if p = CHR ''%'' then sql_like ps (c # cs) \<or> sql_like (p # ps) cs
      else (p = CHR ''_'' \<or> ascii_lower p = ascii_lower c) \<and> sql_like ps cs)"

definition select_pending :: "dataset list \<Rightarrow> string option \<Rightarrow> dataset list" where
  "select_pending db wanted =
     (case wanted of
        None \<Rightarrow> []
      | Some pattern \<Rightarrow> filter (\<lambda>row. been_pulled row = ''N'' \<and> sql_like pattern (data_type row)) db)"

text \<open>A probe that reports 500 GB available, under the cushion of 1024 GiB.\<close>

definition df_low :: process where
  "df_low = \<lparr>returncode = 0, stdout = ''       Avail'' @ [CHR 0x0A] @ ''500000000000'' @ [CHR 0x0A], stderr = []\<rparr>"

section \<open>\<open>r2r_validate_sort.py\<close>: the environment\<close>

text \<open>
  What the second script reads from outside: the two answers typed at the prompts of
  \<open>get_path\<close> (\<open>input\<close> can raise \<open>ValueError\<close>, which \<open>get_path\<close> handles), the
  names \<open>os.listdir\<close> gives for the landing path (\<open>None\<close> lists the working directory),
  \<open>os.path.isfile\<close>, the content of a manifest file, whether \<open>gzip\<close> can decompress
  an archive, and the completed processes that \<open>run_subprocess\<close> hands back for
  \<open>md5sum\<close>, \<open>mkdir -p\<close>, \<open>df\<close>, \<open>tar -C dir -xvf archive\<close>,
  \<open>rsync archive dir\<close> and \<open>rm\<close>. \<open>size_text\<close> is the floating-point branch of
  \<open>convert_size\<close>.
\<close>

datatype typed = Typed string | InputValueError

record sort_env =
  answer1 :: typed
  answer2 :: typed
  listdir :: "string option \<Rightarrow> string list"
  isfile :: "string \<Rightarrow> bool"
  read_file :: "string \<Rightarrow> string"
  gunzip_ok :: "string \<Rightarrow> bool"
  md5sum :: "string \<Rightarrow> process"
  mkdir :: "string \<Rightarrow> process"
  df_of :: "string \<Rightarrow> process"
  tar :: "string \<Rightarrow> string \<Rightarrow> process"
  rsync :: "string \<Rightarrow> string \<Rightarrow> process"
  rm :: "string \<Rightarrow> process"
  size_text :: "int \<Rightarrow> exn + string"

definition get_path :: "sort_env \<Rightarrow> diag list \<Rightarrow> string option \<times> diag list" where
  "get_path env errs =
     (case answer1 env of
        InputValueError \<Rightarrow> (None, errs @ [Exc ValueError])
      | Typed choice \<Rightarrow>
          if choice = ''y'' then (Some ''<NCEI_LANDING_SPACE>'', errs)
          else if choice = ''n'' then
            (case answer2 env of
               InputValueError \<Rightarrow> (None, errs @ [Exc ValueError])
             | Typed choice2 \<Rightarrow> (Some choice2, errs))
          else (None, errs))"

text \<open>\<open>os.path.join\<close> of two components (POSIX).\<close>

definition path_join :: "string \<Rightarrow> string \<Rightarrow> string" where
  "path_join a b =
     (if b \<noteq> [] \<and> hd b = CHR ''/'' then b
      else if a = [] \<or> last a = CHR ''/'' then a @ b
      else a @ ''/'' @ b)"

section \<open>Validation: \<open>validate_tarballs\<close>\<close>

text \<open>
  The body of the loop over the archives (lines 252-286) for the archive named \<open>x\<close>:
  the new \<open>errors\<close>, or the exception that leaves the function (a failed
  decompression, or the \<open>IndexError\<close> of \<open>split()[0]\<close> on a manifest or an
  \<open>md5sum\<close> output without a word). \<open>ungzip_tar\<close> returns the path without its
  last three characters.
\<close>

definition canonical_path :: "string \<Rightarrow> string \<Rightarrow> string" where
  "canonical_path landing x =
     (let tarball_path = path_join landing x in
      if endswith tarball_path ''.gz'' then take (length tarball_path - 3) tarball_path
      else tarball_path)"

definition check_tarball :: "sort_env \<Rightarrow> string \<Rightarrow> string \<Rightarrow> diag list \<Rightarrow> exn + diag list" where
  "check_tarball env landing x errs =
     (if endswith (path_join landing x) ''.gz'' \<and> \<not> gunzip_ok env (path_join landing x)
      then Inl OSError
      else
        (let tarball_path = canonical_path landing x;
             checksum_path = tarball_path @ ''.md5''
         in if isfile env checksum_path then
              (case split_ws (read_file env checksum_path) of
                 [] \<Rightarrow> Inl IndexError
               | checksum # _ \<Rightarrow>
                   (let errs1 = (if length checksum \<noteq> 32 then errs @ [Msg ''Fail''] else errs);
                        md5 = md5sum env tarball_path
                    in if stderr md5 \<noteq> [] then Inr (errs1 @ [Msg ''Fail''])
                       else
                         (case split_ws (stdout md5) of
                            [] \<Rightarrow> Inl IndexError
                          | computed_checksum # _ \<Rightarrow>
                              if checksum = computed_checksum then Inr errs1
                              else Inr (errs1 @ [Msg ''Fail'']))))
            else Inr (errs @ [Msg ''Fail''])))"

fun validate_loop :: "sort_env \<Rightarrow> string \<Rightarrow> string list \<Rightarrow> diag list \<Rightarrow> exn + diag list" where
  "validate_loop env landing [] errs = Inr errs"
| "validate_loop env landing (x # rest) errs =
     (case check_tarball env landing x errs of
        Inl e \<Rightarrow> Inl e
      | Inr errs1 \<Rightarrow> validate_loop env landing rest errs1)"

definition batch :: "sort_env \<Rightarrow> string option \<Rightarrow> string list" where
  "batch env landing_path =
     filter (\<lambda>x. endswith x ''.tar'' \<or> endswith x ''.gz'') (listdir env landing_path)"

text \<open>
  \<open>validate_tarballs\<close> with the global \<open>errors\<close> as it stands when the function is
  called. \<open>os.path.join(None, x)\<close> raises \<open>TypeError\<close>.
\<close>

definition validate_tarballs :: "sort_env \<Rightarrow> string option \<Rightarrow> diag list
    \<Rightarrow> exn + bool \<times> diag list" where
  "validate_tarballs env landing_path errs =
     (case landing_path of
        None \<Rightarrow> if batch env None = [] then Inr (\<not> length errs > 0, errs) else Inl TypeError
      | Some landing \<Rightarrow>
          (case validate_loop env landing (batch env landing_path) errs of
             Inl e \<Rightarrow> Inl e
           | Inr errs1 \<Rightarrow> Inr (\<not> length errs1 > 0, errs1)))"

text \<open>
  The three ways an archive fails validation, in the words of the specification, and an
  archive that passes: it decompresses, its manifest is there, the first word of the
  manifest has 32 characters, \<open>md5sum\<close> writes nothing to its error stream and prints
  that same word first. The first word of a manifest must be a checksum of 32
  characters and anything else is a failure: so a manifest is malformed when its first
  word has not 32 characters and also when it holds no word at all (an empty file, or
  white space only).
\<close>

definition missing_manifest :: "sort_env \<Rightarrow> string \<Rightarrow> string \<Rightarrow> bool" where
  "missing_manifest env landing x \<longleftrightarrow> \<not> isfile env (canonical_path landing x @ ''.md5'')"

definition malformed_token :: "sort_env \<Rightarrow> string \<Rightarrow> string \<Rightarrow> bool" where
  "malformed_token env landing x \<longleftrightarrow>
     isfile env (canonical_path landing x @ ''.md5'')
     \<and> (case split_ws (read_file env (canonical_path landing x @ ''.md5'')) of
          [] \<Rightarrow> True
        | checksum # _ \<Rightarrow> length checksum \<noteq> 32)"

definition checksum_mismatch :: "sort_env \<Rightarrow> string \<Rightarrow> string \<Rightarrow> bool" where
  "checksum_mismatch env landing x \<longleftrightarrow>
     isfile env (canonical_path landing x @ ''.md5'')
     \<and> (\<exists>checksum ws computed vs.
            split_ws (read_file env (canonical_path landing x @ ''.md5'')) = checksum # ws
            \<and> split_ws (stdout (md5sum env (canonical_path landing x))) = computed # vs
            \<and> checksum \<noteq> computed)"

definition archive_ok :: "sort_env \<Rightarrow> string \<Rightarrow> string \<Rightarrow> bool" where
  "archive_ok env landing x \<longleftrightarrow>
     (endswith (path_join landing x) ''.gz'' \<longrightarrow> gunzip_ok env (path_join landing x))
     \<and> isfile env (canonical_path landing x @ ''.md5'')
     \<and> stderr (md5sum env (canonical_path landing x)) = []
     \<and> (\<exists>checksum ws vs.
            split_ws (read_file env (canonical_path landing x @ ''.md5'')) = checksum # ws
            \<and> split_ws (stdout (md5sum env (canonical_path landing x))) = checksum # vs
            \<and> length checksum = 32)"

text \<open>
  An archive whose check raises no exception: it decompresses, and its manifest, when
  there is one, and the output of \<open>md5sum\<close>, when its error stream is empty, hold a
  word.
\<close>

definition archive_readable :: "sort_env \<Rightarrow> string \<Rightarrow> string \<Rightarrow> bool" where
  "archive_readable env landing x \<longleftrightarrow>
     \<not> (endswith (path_join landing x) ''.gz'' \<and> \<not> gunzip_ok env (path_join landing x))
     \<and> (\<not> isfile env (canonical_path landing x @ ''.md5'')
          \<or> (split_ws (read_file env (canonical_path landing x @ ''.md5'')) \<noteq> []
              \<and> (stderr (md5sum env (canonical_path landing x)) \<noteq> []
                   \<or> split_ws (stdout (md5sum env (canonical_path landing x))) \<noteq> [])))"

section \<open>Routing: \<open>sort_landing_zone\<close>\<close>

text \<open>
  The table \<open>DATA_TYPES\<close> as it stands in the script: every landing directory and
  space-check path is the same literal, which holds no replacement field, so
  \<open>.format(ship=..., survey=...)\<close> gives it back unchanged.
\<close>

record guidance =
  untar :: bool
  landing_directory :: string
  space_check_dir :: string

definition DATA_TYPES :: "(string \<times> guidance) list" where
  "DATA_TYPES =
     [(''Multibeam Sonar'', \<lparr>untar = True, landing_directory = ''<NCEI_LANDING_SPACE>'', space_check_dir = ''<NCEI_LANDING_SPACE>''\<rparr>),
      (''Gravimeter'', \<lparr>untar = False, landing_directory = ''<NCEI_LANDING_SPACE>'', space_check_dir = ''<NCEI_LANDING_SPACE>''\<rparr>),
      (''Magnetometer'', \<lparr>untar = False, landing_directory = ''<NCEI_LANDING_SPACE>'', space_check_dir = ''<NCEI_LANDING_SPACE>''\<rparr>),
      (''gnss'', \<lparr>untar = False, landing_directory = ''<NCEI_LANDING_SPACE>'', space_check_dir = ''<NCEI_LANDING_SPACE>''\<rparr>),
      (''r2rnav'', \<lparr>untar = False, landing_directory = ''<NCEI_LANDING_SPACE>'', space_check_dir = ''<NCEI_LANDING_SPACE>''\<rparr>),
      (''Subbottom'', \<lparr>untar = True, landing_directory = ''<NCEI_LANDING_SPACE>'', space_check_dir = ''<NCEI_LANDING_SPACE>''\<rparr>),
      (''Singlebeam Sonar'', \<lparr>untar = True, landing_directory = ''<NCEI_LANDING_SPACE>'', space_check_dir = ''<NCEI_LANDING_SPACE>''\<rparr>),
      (''Splitbeam Sonar'', \<lparr>untar = True, landing_directory = ''<NCEI_LANDING_SPACE>'', space_check_dir = ''<NCEI_LANDING_SPACE>''\<rparr>),
      (''WCD Multibeam'', \<lparr>untar = True, landing_directory = ''<NCEI_LANDING_SPACE>'', space_check_dir = ''<NCEI_LANDING_SPACE>''\<rparr>)]"

text \<open>Lines 356-378: the guidance for a row, \<open>None\<close> when no rule applies.\<close>

definition choose_guidance :: "string \<Rightarrow> string \<Rightarrow> string \<Rightarrow> guidance option" where
  "choose_guidance data_group dtype iname =
     (if data_group = ''WCSD'' then
        (if dtype = ''Splitbeam Sonar'' then map_of DATA_TYPES ''Splitbeam Sonar''
         else map_of DATA_TYPES ''WCD Multibeam'')
      else if data_group = ''Multibeam'' then map_of DATA_TYPES ''Multibeam Sonar''
      else if data_group = ''Trackline'' then
        (if dtype = ''Gravimeter'' then map_of DATA_TYPES ''Gravimeter''
         else if dtype = ''Magnetometer'' then map_of DATA_TYPES ''Magnetometer''
         else if dtype = ''Singlebeam Sonar'' then
           (if str_in ''[includes subbottom]'' iname then map_of DATA_TYPES ''Subbottom''
            else map_of DATA_TYPES ''Singlebeam Sonar'')
         else None)
      else None)"

text \<open>
  \<open>landing_space_bytes\<close> of the second script: the boolean \<open>False\<close>, or a tuple of the
  free space, a flag and the free space as text.
\<close>

datatype space_info = NoSpaceInfo | SpaceInfo int bool string

definition landing_space_bytes_sort :: "(int \<Rightarrow> exn + string) \<Rightarrow> process \<Rightarrow> int \<Rightarrow> diag list
    \<Rightarrow> space_info \<times> diag list" where
  "landing_space_bytes_sort fp df minimum errs =
     (let min_space = minimum * 1024 * 1024 * 1024 in
      if returncode df \<noteq> 0 then (NoSpaceInfo, errs)
      else
        (case first_digits (stdout df) of
           None \<Rightarrow> (NoSpaceInfo, errs @ [Exc AttributeError])
         | Some digits \<Rightarrow>
             (let space = dec_val digits;
                  free_space = space - min_space
              in case convert_size fp free_space of
                   Inl e \<Rightarrow> (NoSpaceInfo, errs @ [Exc e])
                 | Inr hr \<Rightarrow>
                     if space \<ge> min_space then (SpaceInfo free_space True hr, errs)
                     else (SpaceInfo free_space False hr, errs))))"

text \<open>
  The body of the loop over the tarballs (lines 336-460) for one tarball. The state is
  the global \<open>errors\<close> and a ghost list \<open>routed\<close> of the tarballs placed so far, each
  with its destination: a tarball is placed when \<open>tar\<close> returns a code that is not
  positive, or \<open>rsync\<close> returns 0. The table is only read. The exceptions:
  \<open>ValueError\<close> when the name has not exactly three underscore-delimited parts,
  \<open>IndexError\<close> when no row has the fileset id, \<open>TypeError\<close> when the result of
  \<open>landing_space_bytes\<close> is indexed and is \<open>False\<close>, or when the landing path is
  \<open>None\<close>.
\<close>

definition route_tarball :: "sort_env \<Rightarrow> string option \<Rightarrow> dataset list \<Rightarrow> string
    \<Rightarrow> diag list \<times> (string \<times> string) list \<Rightarrow> exn + diag list \<times> (string \<times> string) list" where
  "route_tarball env landing_path db tarball st =
     (case landing_path of
        None \<Rightarrow> Inl TypeError
      | Some landing \<Rightarrow>
          (let tarball_absolute_path = path_join landing tarball in
           case split_on CHR ''_'' tarball of
             [survey, r2r_id, ending] \<Rightarrow>
               (case filter (\<lambda>row. sql_like r2r_id (fileset_id row)) db of
                  [] \<Rightarrow> Inl IndexError
                | row0 # _ \<Rightarrow>
                    (case choose_guidance (data_type row0) (instrument_type row0) (instrument_name row0) of
                       None \<Rightarrow> Inr st
                     | Some g \<Rightarrow>
                         (let tarball_landing_directory = landing_directory g in
                          if data_type row0 \<noteq> ''WCSD''
                               \<and> returncode (mkdir env tarball_landing_directory) \<noteq> 0
                          then Inr (fst st @ [Msg ''Could not make new folder''], snd st)
                          else if untar g then
                            (case landing_space_bytes_sort (size_text env) (df_of env (space_check_dir g)) 1024 (fst st) of
                               (NoSpaceInfo, errs1) \<Rightarrow> Inl TypeError
                             | (SpaceInfo free_space flag hr, errs1) \<Rightarrow>
                                 if flag then
                                   (if returncode (tar env tarball_landing_directory tarball_absolute_path) > 0
                                    then Inr (errs1, snd st)
                                    else Inr (errs1, snd st @ [(tarball, tarball_landing_directory)]))
                                 else Inr (errs1, snd st))
                          else
                            (case landing_space_bytes_sort (size_text env) (df_of env tarball_landing_directory) 1024 (fst st) of
                               (NoSpaceInfo, errs1) \<Rightarrow> Inl TypeError
                             | (SpaceInfo free_space flag hr, errs1) \<Rightarrow>
                                 if flag then
                                   (if returncode (rsync env tarball_absolute_path tarball_landing_directory) = 0
                                    then Inr (errs1, snd st @ [(tarball, tarball_landing_directory)])
                                    else Inr (errs1, snd st))
                                 else Inr (errs1, snd st)))))
           | _ \<Rightarrow> Inl ValueError))"

text \<open>
  The loop and the function. The result holds the exception that ended the run, if any,
  with the state reached, and the table as the function leaves it.
\<close>

fun sort_loop :: "sort_env \<Rightarrow> string option \<Rightarrow> dataset list \<Rightarrow> string list
    \<Rightarrow> diag list \<times> (string \<times> string) list \<Rightarrow> exn option \<times> diag list \<times> (string \<times> string) list" where
  "sort_loop env landing_path db [] st = (None, st)"
| "sort_loop env landing_path db (tarball # rest) st =
     (case route_tarball env landing_path db tarball st of
        Inl e \<Rightarrow> (Some e, st)
      | Inr st1 \<Rightarrow> sort_loop env landing_path db rest st1)"

definition sort_landing_zone :: "sort_env \<Rightarrow> string option \<Rightarrow> string list \<Rightarrow> dataset list \<Rightarrow> bool
    \<Rightarrow> diag list \<Rightarrow> (exn option \<times> diag list \<times> (string \<times> string) list) \<times> dataset list" where
  "sort_landing_zone env landing_path names db valid errs =
     (if valid then
        (let tarballs = filter (\<lambda>x. endswith x ''.tar'' \<or> endswith x ''tar.gz'') names in
         (sort_loop env landing_path db tarballs (errs, []), db))
      else ((None, errs, []), db))"

text \<open>
  The names in the landing directory once \<open>validate_tarballs\<close> has run: every
  \<open>.gz\<close> archive has been replaced by the file it decompressed to.
\<close>

definition after_gunzip :: "string list \<Rightarrow> string list" where
  "after_gunzip names =
     remdups (map (\<lambda>x. if endswith x ''.gz'' then take (length x - 3) x else x) names)"

text \<open>\<open>main\<close>: ask for the path, validate, sort. The global \<open>errors\<close> starts empty.\<close>

definition main :: "sort_env \<Rightarrow> dataset list
    \<Rightarrow> (exn option \<times> diag list \<times> (string \<times> string) list) \<times> dataset list" where
  "main env db =
     (let (landing_path, errs1) = get_path env [] in
      case validate_tarballs env landing_path errs1 of
        Inl e \<Rightarrow> ((Some e, errs1, []), db)
      | Inr (is_valid, errs2) \<Rightarrow>
          sort_landing_zone env landing_path (after_gunzip (listdir env landing_path)) db is_valid errs2)"

section \<open>The transfer: \<open>copy_packages\<close>\<close>

text \<open>\<open>os.path.split\<close> and \<open>os.path.splitext\<close> (POSIX).\<close>

definition path_split :: "string \<Rightarrow> string \<times> string" where
  "path_split p =
     (let tail = rev (takeWhile (\<lambda>c. c \<noteq> CHR ''/'') (rev p));
          head = take (length p - length tail) p
      in (if head \<noteq> [] \<and> \<not> list_all (\<lambda>c. c = CHR ''/'') head
          then rev (dropWhile (\<lambda>c. c = CHR ''/'') (rev head)) else head,
          tail))"

definition splitext :: "string \<Rightarrow> string \<times> string" where
  "splitext p =
     (let base = rev (takeWhile (\<lambda>c. c \<noteq> CHR ''/'') (rev p)) in
      if CHR ''.'' \<in> set base then
        (let ext_len = length (takeWhile (\<lambda>c. c \<noteq> CHR ''.'') (rev base)) + 1;
             stem = take (length base - ext_len) base
         in if list_all (\<lambda>c. c = CHR ''.'') stem then (p, [])
            else (take (length p - ext_len) p, drop (length p - ext_len) p))
      else (p, []))"

text \<open>
  The remote side of the transfer: for each remote path, the completed \<open>sftp\<close> process
  of its \<open>get\<close>, and the completed \<open>ls landing_path\<close> that follows it.
\<close>

record copy_env =
  sftp_get :: "string \<Rightarrow> process"
  ls_landing :: "string \<Rightarrow> process"

text \<open>Lines 656-661: the paths to copy are the chosen ones and then their manifests.\<close>

definition all_paths :: "string list \<Rightarrow> string list" where
  "all_paths dir_list = dir_list @ map (\<lambda>file. fst (splitext file) @ ''.md5'') dir_list"

text \<open>
  The statement \<open>update DATASETS set BEEN_PULLED = 'Y' where PACKAGE_PATH = path\<close>.
\<close>

definition mark_pulled :: "string \<Rightarrow> dataset list \<Rightarrow> dataset list" where
  "mark_pulled path db =
     map (\<lambda>row. if package_path row = path then row\<lparr>been_pulled := ''Y''\<rparr> else row) db"

text \<open>The body of the loop over the paths (lines 666-723), and the loop.\<close>

definition copy_one :: "copy_env \<Rightarrow> string \<Rightarrow> dataset list \<times> diag list \<Rightarrow> dataset list \<times> diag list" where
  "copy_one env path st =
     (let (cd_path, package) = path_split path;
          process = sftp_get env path;
          error = butlast (split_on CHR 0x0A (stderr process))
      in if stderr process \<noteq> [] \<and> length error > 1 then (fst st, snd st @ [Lines error])
         else if returncode process = 0 then
           (let results = split_ws (butlast (stdout (ls_landing env path))) in
            if package \<in> set results then (mark_pulled path (fst st), snd st) else st)
         else st)"

fun copy_loop :: "copy_env \<Rightarrow> string list \<Rightarrow> dataset list \<times> diag list \<Rightarrow> dataset list \<times> diag list" where
  "copy_loop env [] st = st"
| "copy_loop env (path # rest) st = copy_loop env rest (copy_one env path st)"

text \<open>
  \<open>copy_packages\<close> for a database file that exists. The list is \<open>None\<close> when
  \<open>query_sqlite\<close> gave none; iterating over it raises \<open>TypeError\<close>.
\<close>

definition copy_packages :: "copy_env \<Rightarrow> string list option \<Rightarrow> dataset list \<Rightarrow> diag list
    \<Rightarrow> exn + dataset list \<times> diag list" where
  "copy_packages env dir_list db errs =
     (case dir_list of
        None \<Rightarrow> Inl TypeError
      | Some paths \<Rightarrow> Inr (copy_loop env (all_paths paths) (db, errs)))"


text \<open>
  Lines 756-762 of the script: the space check, the two prompts and the transfer.
\<close>

definition pull_selected :: "(int \<Rightarrow> exn + string) \<Rightarrow> process \<Rightarrow> string \<Rightarrow> string \<Rightarrow> copy_env
    \<Rightarrow> dataset list \<Rightarrow> diag list \<Rightarrow> exn + dataset list \<times> diag list" where
  "pull_selected fp df choice choices env db errs =
     (let (space, errs1) = landing_space_bytes fp df 1024 errs in
      case space_flag space of
        Inl e \<Rightarrow> Inl e
      | Inr flag \<Rightarrow>
          (let (data_type_input, errs2) = get_data_type flag choice errs1 in
           case space_free space of
             Inl e \<Rightarrow> Inl e
           | Inr free \<Rightarrow>
               (case query_sqlite fp (select_pending db data_type_input) free choices of
                  Inl e \<Rightarrow> Inl e
                | Inr pulldown_list \<Rightarrow> copy_packages env pulldown_list db errs2)))"

section \<open>A concrete landing directory\<close>

text \<open>
  A landing directory \<open>/landing\<close> that holds the archive \<open>CRUISE_12345_01.tar\<close> and
  its manifest, with a matching checksum, enough free space and commands that succeed;
  and a transfer that succeeds.
\<close>

definition ok_process :: "string \<Rightarrow> process" where
  "ok_process out = \<lparr>returncode = 0, stdout = out, stderr = []\<rparr>"

definition ex_sort_env :: sort_env where
  "ex_sort_env =
     \<lparr>answer1 = Typed ''n'', answer2 = Typed ''/landing'',
      listdir = (\<lambda>p. [''CRUISE_12345_01.tar'', ''CRUISE_12345_01.tar.md5'']),
      isfile = (\<lambda>p. True),
      read_file = (\<lambda>p. ''d41d8cd98f00b204e9800998ecf8427e  CRUISE_12345_01.tar''),
      gunzip_ok = (\<lambda>p. True),
      md5sum = (\<lambda>p. ok_process (''d41d8cd98f00b204e9800998ecf8427e  '' @ p)),
      mkdir = (\<lambda>p. ok_process []),
      df_of = (\<lambda>p. ok_process (''Avail'' @ [CHR 0x0A] @ ''5000000000000'')),
      tar = (\<lambda>d p. ok_process []),
      rsync = (\<lambda>p d. ok_process []),
      rm = (\<lambda>p. ok_process []),
      size_text = (\<lambda>n. Inr ''3.55 TB'')\<rparr>"

definition ex_copy_env :: copy_env where
  "ex_copy_env =
     \<lparr>sftp_get = (\<lambda>p. ok_process ''Fetching''),
      ls_landing = (\<lambda>p. ok_process (''CRUISE_12345_01.tar'' @ [CHR 0x0A]))\<rparr>"

text \<open>
  A batch of three archives; the manifest of the second holds a checksum that is not
  the one \<open>md5sum\<close> computes.
\<close>

definition ex_batch_env :: sort_env where
  "ex_batch_env =
     ex_sort_env
       \<lparr>listdir := (\<lambda>p. [''CRUISE_12345_01.tar'', ''CRUISE_12345_02.tar'', ''CRUISE_12345_03.tar'']),
        read_file := (\<lambda>p. if p = ''/landing/CRUISE_12345_02.tar.md5''
                           then ''00000000000000000000000000000000  CRUISE_12345_02.tar''
                           else ''d41d8cd98f00b204e9800998ecf8427e  archive'')\<rparr>"

text \<open>
  The same batch, where moreover the manifest of the third archive holds a line feed and
  nothing else.
\<close>

definition ex_blank_env :: sort_env where
  "ex_blank_env =
     ex_sort_env
       \<lparr>listdir := (\<lambda>p. [''CRUISE_12345_01.tar'', ''CRUISE_12345_02.tar'', ''CRUISE_12345_03.tar'']),
        read_file := (\<lambda>p. if p = ''/landing/CRUISE_12345_02.tar.md5''
                           then ''00000000000000000000000000000000  CRUISE_12345_02.tar''
                           else if p = ''/landing/CRUISE_12345_03.tar.md5''
                           then [CHR 0x0A]
                           else ''d41d8cd98f00b204e9800998ecf8427e  archive'')\<rparr>"

section \<open>Facts about the string primitives\<close>

lemma str_in_iff_sublist: "str_in sub s \<longleftrightarrow> sublist sub s"
  by (induction s) (auto simp: sublist_Cons_right)

lemma str_in_append: "str_in sub (ps @ sub @ ss)"
  by (simp add: str_in_iff_sublist)

lemma scan_wcsd_result:
  "scan_wcsd ws instrument d = (if \<exists>w \<in> set ws. sublist w instrument then ''WCSD'' else d)"
  by (induction ws) (auto simp: str_in_iff_sublist)

section \<open>Classification\<close>

text \<open>
  C4. The data type is a function of the instrument type \<open>itype\<close> and the instrument name \<open>iname\<close> alone:
  for \<open>Multibeam Sonar\<close> it is \<open>Multibeam\<close>, unless the instrument name contains one of
  the four water-column markers, when it is \<open>WCSD\<close>; for \<open>Splitbeam Sonar\<close> it is
  \<open>WCSD\<close>; for every other instrument type it is \<open>Trackline\<close>.
\<close>

theorem classification_by_type_and_name:
  "(itype = ''Multibeam Sonar'' \<longrightarrow>
      classify_data_type itype iname =
        (if sublist ''[water column]'' iname \<or> sublist ''[Watercolumn]'' iname
            \<or> sublist ''[Water Column]'' iname \<or> sublist ''[watercolumn]'' iname
         then ''WCSD'' else ''Multibeam''))
   \<and> (itype = ''Splitbeam Sonar'' \<longrightarrow>
      classify_data_type itype iname = ''WCSD'')
   \<and> (itype \<noteq> ''Multibeam Sonar'' \<and> itype \<noteq> ''Splitbeam Sonar'' \<longrightarrow>
      classify_data_type itype iname = ''Trackline'')"
  by (simp add: classify_data_type_def scan_wcsd_result wcsd_str_def)

theorem classification_by_type_and_name_witness:
  "classify_data_type ''Multibeam Sonar'' ''Kongsberg EM122 [Water Column]'' = ''WCSD''
   \<and> classify_data_type ''Multibeam Sonar'' ''Kongsberg EM122'' = ''Multibeam''
   \<and> classify_data_type ''Splitbeam Sonar'' ''Simrad EK60'' = ''WCSD''
   \<and> classify_data_type ''Gravimeter'' ''BGM-3'' = ''Trackline''"
proof -
  have a: "sublist ''[Water Column]'' ''Kongsberg EM122 [Water Column]''"
    using str_in_append [of "''[Water Column]''" "''Kongsberg EM122 ''" "[]"]
    by (simp add: str_in_iff_sublist)
  have b: "\<not> str_in w ''Kongsberg EM122''" if "w \<in> set wcsd_str" for w
    using that by (auto simp: wcsd_str_def)
  have b': "\<not> (sublist ''[water column]'' ''Kongsberg EM122'' \<or> sublist ''[Watercolumn]'' ''Kongsberg EM122''
            \<or> sublist ''[Water Column]'' ''Kongsberg EM122'' \<or> sublist ''[watercolumn]'' ''Kongsberg EM122'')"
    using b by (simp add: wcsd_str_def str_in_iff_sublist)
  show ?thesis
    using classification_by_type_and_name [of "''Multibeam Sonar''" "''Kongsberg EM122 [Water Column]''"]
      classification_by_type_and_name [of "''Multibeam Sonar''" "''Kongsberg EM122''"]
      classification_by_type_and_name [of "''Splitbeam Sonar''" "''Simrad EK60''"]
      classification_by_type_and_name [of "''Gravimeter''" "''BGM-3''"]
      a b'
    by simp
qed

section \<open>The selection planner\<close>

lemma accumulate_taken:
  "accumulate B rs (bc, pd) =
     (bc + sum_list (map size_bytes (taken B bc rs)),
      fold (\<lambda>r. AList.update (package_id r) (pkg_entry_of r)) (taken B bc rs) pd)"
  by (induction rs arbitrary: bc pd) auto

lemma update_fresh: "k \<notin> fst ` set al \<Longrightarrow> AList.update k v al = al @ [(k, v)]"
  by (induction al) auto

lemma fold_update_fresh:
  "distinct (map f xs) \<Longrightarrow> f ` set xs \<inter> fst ` set pd = {} \<Longrightarrow>
   fold (\<lambda>r. AList.update (f r) (g r)) xs pd = pd @ map (\<lambda>r. (f r, g r)) xs"
proof (induction xs arbitrary: pd)
  case Nil
  then show ?case by simp
next
  case (Cons x xs)
  have fresh: "f x \<notin> fst ` set pd" using Cons.prems(2) by auto
  have d: "distinct (map f xs)" and nx: "f x \<notin> f ` set xs" using Cons.prems(1) by auto
  have "f ` set xs \<inter> fst ` set (pd @ [(f x, g x)]) = {}"
    using Cons.prems(2) nx by auto
  from Cons.IH [OF d this] show ?case
    by (simp add: update_fresh [OF fresh])
qed

lemma set_taken: "set (taken B bc rs) \<subseteq> set rs"
  by (induction rs arbitrary: bc) auto

lemma taken_append:
  "taken B bc (xs @ ys) =
     taken B bc xs @ taken B (bc + sum_list (map size_bytes (taken B bc xs))) ys"
  by (induction xs arbitrary: bc) (auto simp: add.assoc)

lemma distinct_map_taken: "distinct (map f rs) \<Longrightarrow> distinct (map f (taken B bc rs))"
proof (induction rs arbitrary: bc)
  case Nil
  then show ?case by simp
next
  case (Cons r rs)
  have "f r \<notin> f ` set (taken B (bc + size_bytes r) rs)"
    using Cons.prems set_taken [of B "bc + size_bytes r" rs] by auto
  with Cons show ?case by auto
qed

lemma filter_taken:
  "distinct xs \<Longrightarrow> filter (\<lambda>x. x \<in> set (taken B bc xs)) xs = taken B bc xs"
proof (induction xs arbitrary: bc)
  case Nil
  then show ?case by simp
next
  case (Cons x xs)
  have nx: "x \<notin> set xs" and d: "distinct xs" using Cons.prems by auto
  show ?case
  proof (cases "bc < B")
    case True
    have "filter (\<lambda>y. y \<in> set (taken B bc (x # xs))) xs
          = filter (\<lambda>y. y \<in> set (taken B (bc + size_bytes x) xs)) xs"
      using nx True by (intro filter_cong) auto
    then show ?thesis using True Cons.IH [OF d] by simp
  next
    case False
    have "x \<notin> set (taken B bc xs)" using nx set_taken [of B bc xs] by auto
    then show ?thesis using False Cons.IH [OF d] by simp
  qed
qed

lemma butlast_taken:
  "taken B bc rs \<noteq> [] \<Longrightarrow> bc + sum_list (map size_bytes (butlast (taken B bc rs))) < B"
proof (induction rs arbitrary: bc)
  case Nil
  then show ?case by simp
next
  case (Cons r rs)
  show ?case
  proof (cases "bc < B")
    case True
    show ?thesis
    proof (cases "taken B (bc + size_bytes r) rs = []")
      case True
      with \<open>bc < B\<close> show ?thesis by simp
    next
      case False
      from Cons.IH [OF False] \<open>bc < B\<close> False show ?thesis by (simp add: add.assoc)
    qed
  next
    case False
    with Cons show ?thesis by simp
  qed
qed

lemma package_dict_taken:
  assumes "distinct (map package_id rs)"
  shows "snd (accumulate B rs (0, [])) = map (\<lambda>r. (package_id r, pkg_entry_of r)) (taken B 0 rs)"
  using fold_update_fresh [OF distinct_map_taken [OF assms], of B 0 "[]" pkg_entry_of]
  by (simp add: accumulate_taken)


lemma included_keys:
  assumes d: "distinct (map package_id rs)"
  shows "fst ` set (snd (accumulate B rs (0, []))) = package_id ` set (taken B 0 rs)"
  by (simp add: package_dict_taken [OF d] image_image)

lemma included_iff_taken:
  assumes d: "distinct (map package_id rs)" and x: "x \<in> set rs"
  shows "package_id x \<in> package_id ` set (taken B 0 rs) \<longleftrightarrow> x \<in> set (taken B 0 rs)"
proof
  assume "package_id x \<in> package_id ` set (taken B 0 rs)"
  then obtain t where t: "t \<in> set (taken B 0 rs)" and e: "package_id x = package_id t" by auto
  have "t \<in> set rs" using t set_taken [of B 0 rs] by auto
  with d x e have "x = t" by (meson distinct_map inj_onD)
  with t show "x \<in> set (taken B 0 rs)" by simp
qed simp

lemma running_total_step:
  assumes d: "distinct (map package_id rs)" and i: "i < length rs"
  shows "filter (\<lambda>r. package_id r \<in> package_id ` set (taken B 0 rs)) (take i rs) = taken B 0 (take i rs)"
    and "rs ! i \<in> set (taken B 0 rs) \<longleftrightarrow> sum_list (map size_bytes (taken B 0 (take i rs))) < B"
proof -
  define xs where "xs = take i rs"
  define ys where "ys = drop (Suc i) rs"
  define r where "r = rs ! i"
  define c where "c = sum_list (map size_bytes (taken B 0 xs))"
  have rs: "rs = xs @ r # ys"
    unfolding xs_def ys_def r_def using i by (simp add: id_take_nth_drop)
  have drs: "distinct (xs @ r # ys)" using d unfolding rs by (simp only: distinct_map)
  have dxs: "distinct xs" and xs_r: "r \<notin> set xs" and xs_ys: "set xs \<inter> set ys = {}"
    and r_ys: "r \<notin> set ys"
    using drs by auto
  have T: "taken B 0 rs = taken B 0 xs @ taken B c (r # ys)"
    unfolding rs by (simp add: taken_append c_def)
  have tail: "set (taken B c' ys) \<subseteq> set ys" for c' by (rule set_taken)
  have head: "set (taken B 0 xs) \<subseteq> set xs" by (rule set_taken)
  have "filter (\<lambda>r. package_id r \<in> package_id ` set (taken B 0 rs)) xs
        = filter (\<lambda>r. r \<in> set (taken B 0 xs)) xs"
  proof (rule filter_cong [OF refl])
    fix x assume x: "x \<in> set xs"
    then have "x \<in> set rs" unfolding rs by simp
    from included_iff_taken [OF d this]
    have "package_id x \<in> package_id ` set (taken B 0 rs) \<longleftrightarrow> x \<in> set (taken B 0 rs)" .
    also have "\<dots> \<longleftrightarrow> x \<in> set (taken B 0 xs)"
      using x xs_r xs_ys tail [of "c + size_bytes r"] tail [of c] unfolding T by auto
    finally show "package_id x \<in> package_id ` set (taken B 0 rs) \<longleftrightarrow> x \<in> set (taken B 0 xs)" .
  qed
  also have "\<dots> = taken B 0 xs" by (rule filter_taken [OF dxs])
  finally show "filter (\<lambda>r. package_id r \<in> package_id ` set (taken B 0 rs)) (take i rs) = taken B 0 (take i rs)"
    by (simp add: xs_def)
  have "r \<in> set (taken B 0 rs) \<longleftrightarrow> c < B"
    using xs_r r_ys head tail [of c] unfolding T by auto
  then show "rs ! i \<in> set (taken B 0 rs) \<longleftrightarrow> sum_list (map size_bytes (taken B 0 (take i rs))) < B"
    by (simp add: c_def r_def xs_def)
qed

text \<open>
  When the rows have pairwise distinct labels \<open>cruise_id instrument_name\<close>, the
  dictionary the planner builds holds exactly the rows whose running total was under the
  budget, in the order of the table: a row is in it exactly when the sizes of the rows
  before it that are in it sum to less than \<open>B\<close>, and all entries but the last sum
  to less than \<open>B\<close>.
\<close>

lemma planner_budget_distinct_labels:
  assumes d: "distinct (map package_id results)"
    and pd: "package_dict = snd (accumulate B results (0, []))"
  shows "(\<forall>i < length results.
            (package_id (results ! i) \<in> fst ` set package_dict)
            = (sum_list (map size_bytes
                 (filter (\<lambda>r. package_id r \<in> fst ` set package_dict) (take i results))) < B))
       \<and> package_dict = map (\<lambda>r. (package_id r, pkg_entry_of r))
                          (filter (\<lambda>r. package_id r \<in> fst ` set package_dict) results)
       \<and> (package_dict \<noteq> [] \<longrightarrow>
            sum_list (map (\<lambda>(pkg, hr, path, byte). byte) (butlast package_dict)) < B)"
proof (intro conjI allI impI)
  have K: "fst ` set package_dict = package_id ` set (taken B 0 results)"
    unfolding pd by (rule included_keys [OF d])
  have P: "package_dict = map (\<lambda>r. (package_id r, pkg_entry_of r)) (taken B 0 results)"
    unfolding pd by (rule package_dict_taken [OF d])
  have drs: "distinct results" using d by (simp add: distinct_map)
  {
    fix i assume i: "i < length results"
    then have "results ! i \<in> set results" by simp
    from included_iff_taken [OF d this] running_total_step [OF d i, of B]
    show "(package_id (results ! i) \<in> fst ` set package_dict)
            = (sum_list (map size_bytes
                 (filter (\<lambda>r. package_id r \<in> fst ` set package_dict) (take i results))) < B)"
      by (simp add: K)
  }
  have "filter (\<lambda>r. package_id r \<in> fst ` set package_dict) results
        = filter (\<lambda>r. r \<in> set (taken B 0 results)) results"
    by (rule filter_cong [OF refl]) (simp add: K included_iff_taken [OF d])
  also have "\<dots> = taken B 0 results" by (rule filter_taken [OF drs])
  finally show "package_dict = map (\<lambda>r. (package_id r, pkg_entry_of r))
                          (filter (\<lambda>r. package_id r \<in> fst ` set package_dict) results)"
    using P by simp
  {
    assume "package_dict \<noteq> []"
    then have ne: "taken B 0 results \<noteq> []" using P by simp
    have "map (\<lambda>(pkg, hr, path, byte). byte) (butlast package_dict)
          = map size_bytes (butlast (taken B 0 results))"
      by (simp add: P map_butlast [symmetric] pkg_entry_of_def o_def)
    with butlast_taken [OF ne]
    show "sum_list (map (\<lambda>(pkg, hr, path, byte). byte) (butlast package_dict)) < B" by simp
  }
qed

lemma planner_budget_distinct_labels_example:
  "snd (accumulate 10000000000 sel_rows (0, []))
     = map (\<lambda>r. (package_id r, pkg_entry_of r)) sel_rows
   \<and> sum_list (map (\<lambda>(pkg, hr, path, byte). byte)
         (butlast (snd (accumulate 10000000000 sel_rows (0, []))))) = 8000000000"
proof -
  have d: "distinct (map package_id sel_rows)" by code_simp
  have e: "snd (accumulate 10000000000 sel_rows (0, []))
     = map (\<lambda>r. (package_id r, pkg_entry_of r)) sel_rows" by code_simp
  have "sum_list (map (\<lambda>(pkg, hr, path, byte). byte)
         (butlast (map (\<lambda>r. (package_id r, pkg_entry_of r)) sel_rows))) = 8000000000"
    by code_simp
  with e planner_budget_distinct_labels [OF d refl, of 10000000000] show ?thesis by simp
qed

text \<open>
  C3. With a budget of 11 bytes and three pending rows of 5, 5 and 100 bytes, the first
  and the third with the same label \<open>cruise_id instrument_name\<close>: the running total is
  0, 5 and 10 before the three rows, so all three pass the test, but the third row
  replaces the entry of the first in \<open>package_dict\<close>. The dictionary then holds the
  100-byte package first and a 5-byte package last: its entries but the last sum to 100,
  which is not under the budget, and the first row, whose running total was 0, is not in
  it.
\<close>

theorem planner_label_collision:
  "accumulate 11 collide_rows (0, [])
     = (110, [(''AT01 EM122'', [], ''/ngdc/2022-05-03/AT01_30003_em122.tar'', 100),
              (''AT02 EM122'', [], ''/ngdc/2022-05-01/AT02_30002_em122.tar'', 5)])
   \<and> \<not> sum_list (map (\<lambda>(pkg, hr, path, byte). byte)
           (butlast (snd (accumulate 11 collide_rows (0, []))))) < 11"
  by code_simp

section \<open>The selection the user types\<close>

lemma dropWhile_unchanged: "xs = [] \<or> \<not> P (hd xs) \<Longrightarrow> dropWhile P xs = xs"
  by (cases xs) auto

lemma strip_strip: "strip (strip s) = strip s"
proof -
  define u where "u = dropWhile is_space s"
  define v where "v = dropWhile is_space (rev u)"
  have t: "strip s = rev v" by (simp add: strip_def u_def v_def)
  have hv: "v = [] \<or> \<not> is_space (hd v)"
    unfolding v_def using hd_dropWhile [of is_space "rev u"] by blast
  have hu: "u = [] \<or> \<not> is_space (hd u)"
    unfolding u_def using hd_dropWhile [of is_space s] by blast
  have "rev v = [] \<or> \<not> is_space (hd (rev v))"
  proof (cases "v = []")
    case True
    then show ?thesis by simp
  next
    case False
    have "suffix v (rev u)" unfolding v_def by (rule suffix_dropWhile)
    then obtain ps where ps: "rev u = ps @ v" by (auto simp: suffix_def)
    with False have "last (rev u) = last v" by simp
    moreover have "u \<noteq> []" using ps False by auto
    ultimately have "last v = hd u" by (simp add: last_rev)
    with hu \<open>u \<noteq> []\<close> False show ?thesis by (simp add: hd_rev)
  qed
  then have "dropWhile is_space (rev v) = rev v" by (rule dropWhile_unchanged)
  moreover have "dropWhile is_space v = v" using hv by (rule dropWhile_unchanged)
  ultimately have "strip (rev v) = rev v" by (simp add: strip_def)
  then show ?thesis unfolding t .
qed

lemma py_int_strip: "py_int (strip s) = py_int s"
  by (simp add: py_int_def strip_strip)

lemma parse_choice_exn: "parse_choice tok = Inl e \<Longrightarrow> e = ValueError"
  by (auto simp: parse_choice_def Let_def split: if_splits list.splits option.splits)

lemma finite_parse_choice: "parse_choice tok = Inr N \<Longrightarrow> finite N"
  by (auto simp: parse_choice_def Let_def split: if_splits list.splits option.splits)

lemma collect_choices_exn: "collect_choices toks S = Inl e \<Longrightarrow> e = ValueError"
  by (induction toks arbitrary: S) (auto split: sum.splits dest: parse_choice_exn)

lemma collect_choices_mono: "collect_choices toks S = Inr S' \<Longrightarrow> S \<subseteq> S'"
  by (induction toks arbitrary: S) (auto split: sum.splits)

lemma collect_choices_finite: "collect_choices toks S = Inr S' \<Longrightarrow> finite S \<Longrightarrow> finite S'"
  by (induction toks arbitrary: S) (auto split: sum.splits dest: finite_parse_choice)

lemma collect_choices_Inr:
  "collect_choices toks S = Inr S' \<Longrightarrow> tok \<in> set toks \<Longrightarrow>
     \<exists>N. parse_choice tok = Inr N \<and> N \<subseteq> S'"
proof (induction toks arbitrary: S)
  case Nil
  then show ?case by simp
next
  case (Cons t toks)
  from Cons.prems(1) obtain N where N: "parse_choice t = Inr N"
    and rest: "collect_choices toks (S \<union> N) = Inr S'"
    by (auto split: sum.splits)
  show ?case
  proof (cases "tok = t")
    case True
    with N collect_choices_mono [OF rest] show ?thesis by auto
  next
    case False
    with Cons.prems(2) have "tok \<in> set toks" by simp
    from Cons.IH [OF rest this] show ?thesis .
  qed
qed

lemma split_on_aux_nonempty: "split_on_aux c cur s \<noteq> []"
  by (induction s arbitrary: cur) auto

lemma split_on_aux_single:
  "split_on_aux c cur s = [x] \<Longrightarrow> c \<notin> set s \<and> x = cur @ s"
proof (induction s arbitrary: cur)
  case Nil
  then show ?case by simp
next
  case (Cons y s)
  show ?case
  proof (cases "y = c")
    case True
    with Cons.prems split_on_aux_nonempty [of c "[]" s] show ?thesis by simp
  next
    case False
    with Cons.prems have "split_on_aux c (cur @ [y]) s = [x]" by simp
    from Cons.IH [OF this] False show ?thesis by simp
  qed
qed

lemma split_on_aux_pair:
  "split_on_aux c cur s = [a, b] \<Longrightarrow>
     \<exists>a'. a = cur @ a' \<and> s = a' @ [c] @ b \<and> c \<notin> set a' \<and> c \<notin> set b"
proof (induction s arbitrary: cur)
  case Nil
  then show ?case by simp
next
  case (Cons x s)
  show ?case
  proof (cases "x = c")
    case True
    with Cons.prems have "a = cur" and "split_on_aux c [] s = [b]" by auto
    with split_on_aux_single [of c "[]" s b] True show ?thesis by auto
  next
    case False
    with Cons.prems have "split_on_aux c (cur @ [x]) s = [a, b]" by simp
    from Cons.IH [OF this] False show ?thesis by auto
  qed
qed

lemma split_on_pair:
  "split_on c s = [a, b] \<Longrightarrow> s = a @ [c] @ b \<and> c \<notin> set a \<and> c \<notin> set b"
  using split_on_aux_pair [of c "[]" s a b] by (auto simp: split_on_def)

lemma set_strip: "set (strip s) \<subseteq> set s"
proof -
  have "set (strip s) \<subseteq> set (dropWhile is_space s)"
    unfolding strip_def using set_dropWhileD [of _ is_space "rev (dropWhile is_space s)"] by auto
  also have "\<dots> \<subseteq> set s" using set_dropWhileD [of _ is_space s] by auto
  finally show ?thesis .
qed

lemma range_ends_dash: "range_ends tok = Some (s, e) \<Longrightarrow> CHR ''-'' \<in> set tok"
proof -
  assume "range_ends tok = Some (s, e)"
  then obtain a b where "split_on CHR ''-'' (strip tok) = [a, b]"
    by (auto simp: range_ends_def split: list.splits)
  from split_on_pair [OF this] have "CHR ''-'' \<in> set (strip tok)" by simp
  with set_strip [of tok] show ?thesis by auto
qed

lemma range_token_dash: "range_token n tok \<Longrightarrow> CHR ''-'' \<in> set tok"
  by (auto simp: range_token_def split: option.splits dest: range_ends_dash)

lemma reversed_range_dash: "reversed_range tok \<Longrightarrow> CHR ''-'' \<in> set tok"
  by (auto simp: reversed_range_def split: option.splits dest: range_ends_dash)

lemma parse_choice_ok:
  assumes p: "parse_choice tok = Inr N" and sub: "\<forall>i \<in> N. 1 \<le> i \<and> i \<le> int n"
  shows "index_token n tok \<or> range_token n tok \<or> reversed_range tok"
proof (cases "CHR ''-'' \<in> set tok")
  case True
  from p True obtain a b s e where sp: "split_on CHR ''-'' (strip tok) = [a, b]"
    and s: "py_int (strip a) = Some s" and e: "py_int (strip b) = Some e" and N: "N = set [s..e]"
    by (auto simp: parse_choice_def Let_def split: list.splits option.splits)
  from sp s e have ends: "range_ends tok = Some (s, e)"
    by (simp add: range_ends_def py_int_strip)
  show ?thesis
  proof (cases "e < s")
    case True
    with ends have "reversed_range tok" by (simp add: reversed_range_def)
    then show ?thesis by simp
  next
    case False
    then have "s \<in> N" and "e \<in> N" using N by simp_all
    with sub have "1 \<le> s" and "e \<le> int n" by blast+
    with False ends have "range_token n tok" by (simp add: range_token_def)
    then show ?thesis by simp
  qed
next
  case False
  with p obtain i where "py_int (strip tok) = Some i" and "N = {i}"
    by (auto simp: parse_choice_def Let_def split: option.splits)
  with sub have "index_token n tok" by (simp add: index_token_def py_int_strip)
  then show ?thesis ..
qed

text \<open>
  What the validity check of \<open>query_sqlite\<close> does catch. If some comma-separated
  token of the line the user types is neither an index of the displayed list, nor an
  inclusive dash-range of such indices, nor a reversed range, \<open>query_sqlite\<close> gives no
  download list: it raises \<open>ValueError\<close> (a token that does not parse) or returns
  \<open>None\<close> (an index out of range).
\<close>

lemma selection_invalidated:
  assumes tok: "tok \<in> set (split_on CHR '','' choices)"
    and not_index: "\<not> index_token (length (snd (accumulate free_space results (0, [])))) tok"
    and not_range: "\<not> range_token (length (snd (accumulate free_space results (0, [])))) tok"
    and not_reversed: "\<not> reversed_range tok"
  shows "query_sqlite fp results free_space choices = Inl ValueError
       \<or> query_sqlite fp results free_space choices = Inr None"
proof -
  define package_dict where "package_dict = snd (accumulate free_space results (0, []))"
  define n where "n = length package_dict"
  show ?thesis
  proof (cases "collect_choices (split_on CHR '','' choices) {}")
    case (Inl e)
    then have "e = ValueError" by (rule collect_choices_exn)
    with Inl show ?thesis by (simp add: query_sqlite_def Let_def)
  next
    case (Inr choice_numbers)
    from collect_choices_Inr [OF Inr tok] obtain N
      where N: "parse_choice tok = Inr N" and sub: "N \<subseteq> choice_numbers" by blast
    have "\<not> (\<forall>i \<in> N. 1 \<le> i \<and> i \<le> int n)"
      using parse_choice_ok [OF N, of n] not_index not_range not_reversed
      unfolding n_def package_dict_def by blast
    then obtain i where i: "i \<in> choice_numbers" and out: "\<not> (1 \<le> i \<and> i \<le> int n)"
      using sub by blast
    have fin: "finite choice_numbers"
      using collect_choices_finite [OF Inr] by simp
    have "Set.filter (\<lambda>choice. 1 \<le> choice \<and> choice \<le> int n) choice_numbers \<subset> choice_numbers"
      using i out by auto
    from psubset_card_mono [OF fin this]
    have "card (Set.filter (\<lambda>choice. 1 \<le> choice \<and> choice \<le> int n) choice_numbers)
            \<noteq> card choice_numbers" by simp
    with Inr show ?thesis
      by (simp add: query_sqlite_def Let_def n_def package_dict_def)
  qed
qed

lemma sel_rows_dict: "length (snd (accumulate 10000000000 sel_rows (0, []))) = 3"
  by code_simp

lemma selection_invalidated_example:
  "query_sqlite (\<lambda>n. Inr ''x'') sel_rows 10000000000 ''1,7'' = Inr None
   \<and> query_sqlite (\<lambda>n. Inr ''x'') sel_rows 10000000000 ''1,x'' = Inl ValueError
   \<and> query_sqlite (\<lambda>n. Inr ''x'') sel_rows 10000000000 ''1,3'' \<noteq> Inr None"
proof -
  have t1: "''7'' \<in> set (split_on CHR '','' ''1,7'')" by code_simp
  have i1: "\<not> index_token 3 ''7''"
  proof -
    have "py_int ''7'' = Some 7" by code_simp
    then show ?thesis by (simp add: index_token_def)
  qed
  have r1: "\<not> range_token 3 ''7''" using range_token_dash [of 3 "''7''"] by auto
  have v1: "\<not> reversed_range ''7''" using reversed_range_dash [of "''7''"] by auto
  have t2: "''x'' \<in> set (split_on CHR '','' ''1,x'')" by code_simp
  have i2: "\<not> index_token 3 ''x''"
  proof -
    have "py_int ''x'' = None" by code_simp
    then show ?thesis by (simp add: index_token_def)
  qed
  have r2: "\<not> range_token 3 ''x''" using range_token_dash [of 3 "''x''"] by auto
  have v2: "\<not> reversed_range ''x''" using reversed_range_dash [of "''x''"] by auto
  have n1: "query_sqlite (\<lambda>n. Inr ''x'') sel_rows 10000000000 ''1,7'' \<noteq> Inl ValueError" by code_simp
  have n2: "query_sqlite (\<lambda>n. Inr ''x'') sel_rows 10000000000 ''1,x'' \<noteq> Inr None" by code_simp
  have n3: "query_sqlite (\<lambda>n. Inr ''x'') sel_rows 10000000000 ''1,3'' \<noteq> Inr None" by code_simp
  from selection_invalidated [of "''7''" "''1,7''" 10000000000 sel_rows "\<lambda>n. Inr ''x''"]
    selection_invalidated [of "''x''" "''1,x''" 10000000000 sel_rows "\<lambda>n. Inr ''x''"]
    t1 i1 r1 v1 t2 i2 r2 v2 n1 n2 n3
  show ?thesis by (simp add: sel_rows_dict)
qed

text \<open>
  C7. A selection is not all or nothing when it holds a reversed range. Three packages
  are displayed and the user types \<open>1,9-7\<close>. The token \<open>9-7\<close> is not an index of the
  list and not an inclusive dash-range of indices of the list (neither 9 nor 7 is an
  index of a list of three), so the whole selection should be refused. But
  \<open>range(9, 8)\<close> is empty: the token adds nothing to \<open>choice_numbers\<close>, the
  validity check of lines 609-612 compares \<open>{1}\<close> with itself, and \<open>query_sqlite\<close>
  returns the path of package 1, the subset named by the valid token. The same ends in
  order (\<open>1,7-9\<close>) and the single index (\<open>1,9\<close>) are refused.
\<close>

theorem reversed_range_accepted:
  "''9-7'' \<in> set (split_on CHR '','' ''1,9-7'')
   \<and> length (snd (accumulate 10000000000 sel_rows (0, []))) = 3
   \<and> \<not> index_token 3 ''9-7''
   \<and> \<not> range_token 3 ''9-7''
   \<and> query_sqlite (\<lambda>n. Inr ''x'') sel_rows 10000000000 ''1,9-7''
       = Inr (Some [''/ngdc/2022-05-01/AT01_10001_em122.tar''])
   \<and> query_sqlite (\<lambda>n. Inr ''x'') sel_rows 10000000000 ''1,7-9'' = Inr None
   \<and> query_sqlite (\<lambda>n. Inr ''x'') sel_rows 10000000000 ''1,9'' = Inr None"
proof (intro conjI)
  show "''9-7'' \<in> set (split_on CHR '','' ''1,9-7'')" by code_simp
  show "length (snd (accumulate 10000000000 sel_rows (0, []))) = 3" by code_simp
  have "py_int ''9-7'' = None" by code_simp
  then show "\<not> index_token 3 ''9-7''" by (simp add: index_token_def)
  have "range_ends ''9-7'' = Some (9, 7)" by code_simp
  then show "\<not> range_token 3 ''9-7''" by (simp add: range_token_def)
  show "query_sqlite (\<lambda>n. Inr ''x'') sel_rows 10000000000 ''1,9-7''
       = Inr (Some [''/ngdc/2022-05-01/AT01_10001_em122.tar''])" by code_simp
  show "query_sqlite (\<lambda>n. Inr ''x'') sel_rows 10000000000 ''1,7-9'' = Inr None" by code_simp
  show "query_sqlite (\<lambda>n. Inr ''x'') sel_rows 10000000000 ''1,9'' = Inr None" by code_simp
qed

section \<open>The entries of a date directory\<close>

lemma length_split_on_aux: "length (split_on_aux c cur s) = Suc (length (filter (\<lambda>x. x = c) s))"
  by (induction s arbitrary: cur) auto

lemma split_on_short: "length (split_on c s) < 2 \<longleftrightarrow> c \<notin> set s"
  by (auto simp: split_on_def length_split_on_aux filter_empty_conv)

lemma nth_second_to_last:
  assumes "2 \<le> length xs"
  shows "xs ! (length xs - 2) = last (butlast xs)"
proof -
  have ne: "butlast xs \<noteq> []" using assms by (cases xs) auto
  have "last (butlast xs) = butlast xs ! (length (butlast xs) - 1)"
    using ne by (rule last_conv_nth)
  also have "length (butlast xs) - 1 = length xs - 2" by simp
  also have "butlast xs ! (length xs - 2) = xs ! (length xs - 2)"
    using assms by (intro nth_butlast) simp
  finally show ?thesis by simp
qed

lemma parse_line_cases:
  "parse_line dir_path line =
     (if malformed_line line then Inl IndexError
      else if package_line line
           then Inr (Some (second_to_last (split_on CHR ''_'' (entry_name line)),
                           dir_path @ ''/'' @ entry_name line))
           else Inr None)"
  by (auto simp: parse_line_def Let_def malformed_line_def package_line_def entry_name_def
      second_to_last_def str_in_iff_sublist split_on_short nth_second_to_last not_less
      simp flip: split_on_short)

lemma parse_lines_result:
  "parse_lines dir_path lines (found, errs) =
     (found @ map (\<lambda>line. (second_to_last (split_on CHR ''_'' (entry_name line)),
                            dir_path @ ''/'' @ entry_name line))
                (filter package_line lines),
      errs @ map (\<lambda>line. Exc IndexError) (filter malformed_line lines))"
proof (induction lines arbitrary: found errs)
  case Nil
  then show ?case by simp
next
  case (Cons line lines)
  have excl: "\<not> (malformed_line line \<and> package_line line)"
    by (auto simp: malformed_line_def package_line_def)
  show ?case
    using excl by (simp add: parse_line_cases Cons.IH)
qed

text \<open>
  C5 (as amended). For the lines listed under a new date directory: an entry becomes a
  candidate exactly when its name contains no \<open>.md5\<close> (so every name that ends in
  \<open>.md5\<close> is left out) and has at least two underscore-delimited segments; the
  candidates keep the order of the listing; the \<open>r2r_id\<close> of a candidate is the
  second-to-last underscore-delimited segment of its name and its path is the directory,
  a slash and the name. A malformed line adds one \<open>IndexError\<close> to \<open>errors\<close> and
  the lines after it are processed all the same.
\<close>

theorem entries_become_candidates:
  "parse_lines dir_path lines ([], errs) =
     (map (\<lambda>line. (second_to_last (split_on CHR ''_'' (entry_name line)),
                    dir_path @ ''/'' @ entry_name line))
        (filter package_line lines),
      errs @ map (\<lambda>line. Exc IndexError) (filter malformed_line lines))
   \<and> ((\<exists>c. parse_line dir_path line = Inr (Some c)) = package_line line)
   \<and> ((parse_line dir_path line = Inl IndexError) = malformed_line line)"
proof (intro conjI)
  show "parse_lines dir_path lines ([], errs) =
     (map (\<lambda>line. (second_to_last (split_on CHR ''_'' (entry_name line)),
                    dir_path @ ''/'' @ entry_name line))
        (filter package_line lines),
      errs @ map (\<lambda>line. Exc IndexError) (filter malformed_line lines))"
    by (simp add: parse_lines_result)
  have excl: "\<not> (malformed_line line \<and> package_line line)"
    by (auto simp: malformed_line_def package_line_def)
  then show "(\<exists>c. parse_line dir_path line = Inr (Some c)) = package_line line"
    by (auto simp: parse_line_cases)
  from excl show "(parse_line dir_path line = Inl IndexError) = malformed_line line"
    by (auto simp: parse_line_cases)
qed

theorem entries_become_candidates_witness:
  "parse_lines ''/ngdc/2022-05-03''
     [''-rw-r--r-- 1 r2r r2r 10 May 3 2022 NOTES'',
      ''-rw-r--r-- 1 r2r r2r 4000 May 3 2022 AT50_54321_01.tar'',
      ''-rw-r--r-- 1 r2r r2r 52 May 3 2022 AT50_54321_01.tar.md5''] ([], [])
   = ([(''54321'', ''/ngdc/2022-05-03/AT50_54321_01.tar'')], [Exc IndexError])"
proof -
  let ?L = "[''-rw-r--r-- 1 r2r r2r 10 May 3 2022 NOTES'',
      ''-rw-r--r-- 1 r2r r2r 4000 May 3 2022 AT50_54321_01.tar'',
      ''-rw-r--r-- 1 r2r r2r 52 May 3 2022 AT50_54321_01.tar.md5'']"
  have m: "filter malformed_line ?L = [''-rw-r--r-- 1 r2r r2r 10 May 3 2022 NOTES'']"
    unfolding malformed_line_def entry_name_def str_in_iff_sublist [symmetric] by code_simp
  have p: "filter package_line ?L = [''-rw-r--r-- 1 r2r r2r 4000 May 3 2022 AT50_54321_01.tar'']"
    unfolding package_line_def entry_name_def str_in_iff_sublist [symmetric] by code_simp
  have s: "second_to_last (split_on CHR ''_'' ''AT50_54321_01.tar'') = ''54321''"
    by code_simp
  have n: "entry_name ''-rw-r--r-- 1 r2r r2r 4000 May 3 2022 AT50_54321_01.tar'' = ''AT50_54321_01.tar''"
    by code_simp
  have "parse_lines ''/ngdc/2022-05-03'' ?L ([], [])
        = (map (\<lambda>line. (second_to_last (split_on CHR ''_'' (entry_name line)),
                          ''/ngdc/2022-05-03'' @ ''/'' @ entry_name line))
              (filter package_line ?L),
           [] @ map (\<lambda>line. Exc IndexError) (filter malformed_line ?L))"
    by (rule entries_become_candidates [THEN conjunct1])
  also have "\<dots> = ([(''54321'', ''/ngdc/2022-05-03/AT50_54321_01.tar'')], [Exc IndexError])"
    unfolding m p by (simp add: s n)
  finally show ?thesis .
qed

text \<open>
  The entry \<open>AT50_54321_01.md5sums.tar\<close> does not end in \<open>.md5\<close> and its name parses
  (the second-to-last segment is \<open>54321\<close>), yet it is no candidate: the test is for
  \<open>.md5\<close> anywhere in the name.
\<close>

theorem md5_inside_name_not_candidate:
  "\<not> endswith ''AT50_54321_01.md5sums.tar'' ''.md5''
   \<and> second_to_last (split_on CHR ''_'' ''AT50_54321_01.md5sums.tar'') = ''54321''
   \<and> parse_line ''/ngdc/2022-05-03''
         ''-rw-r--r-- 1 r2r r2r 4000 May 3 2022 AT50_54321_01.md5sums.tar'' = Inr None
   \<and> parse_lines ''/ngdc/2022-05-03''
         [''-rw-r--r-- 1 r2r r2r 4000 May 3 2022 AT50_54321_01.md5sums.tar''] ([], []) = ([], [])"
  by code_simp

section \<open>Discovery skips the dates of the table\<close>





lemma date_step_listed:
  assumes "date_step env fp K d st = Inr (b, st1)"
  shows "set (listed st1) \<subseteq> set (listed st) \<union> (if d \<in> set K then {} else {date_dir_of env fp d})"
  using assms
  by (auto simp: date_step_def Let_def split: if_splits option.splits prod.splits)




lemma scan_dates_listed:
  "scan_dates env fp K ds st = Inr (b, st') \<Longrightarrow>
     set (listed st') \<subseteq> set (listed st) \<union> date_dir_of env fp ` (set ds - set K)"
proof (induction ds arbitrary: st)
  case Nil
  then show ?case by simp
next
  case (Cons d ds)
  from Cons.prems(1) obtain b1 st1 where step: "date_step env fp K d st = Inr (b1, st1)"
    and rest: "(b1 \<and> b \<and> st' = st1) \<or> (\<not> b1 \<and> scan_dates env fp K ds st1 = Inr (b, st'))"
    by (auto split: sum.splits if_splits)
  from rest show ?case
  proof
    assume "b1 \<and> b \<and> st' = st1"
    with date_step_listed [OF step] show ?thesis by (auto split: if_splits)
  next
    assume "\<not> b1 \<and> scan_dates env fp K ds st1 = Inr (b, st')"
    with Cons.IH [of st1] date_step_listed [OF step] show ?thesis
      by (auto split: if_splits)
  qed
qed









section \<open>A listing that matches no objects\<close>

text \<open>
  C6. The remote archive lists three dates; the listing of the second one matches no
  objects. \<open>check_date_dirs\<close> then returns the integer \<open>0\<close>: the candidate found under
  the first date is dropped and the third date is never listed, where the same call
  without the second date returns both candidates. \<open>build_sqlite\<close> called with that
  \<open>0\<close> raises \<open>AttributeError\<close>, so the run of the script ends there. When the listing
  of the top directory itself matches nothing, \<open>connect_to_sftp\<close> returns \<open>0\<close> and
  \<open>check_date_dirs\<close> raises \<open>TypeError\<close>.
\<close>

theorem no_match_ends_discovery:
  "connect_to_sftp ex_env ''r2r@host'' ''/ngdc'' []
     = Inr (Dates [''2022-05-01'', ''2022-05-02'', ''2022-05-03''], [])
   \<and> check_date_dirs ex_env (Dates [''2022-05-01'', ''2022-05-02'', ''2022-05-03'']) ''/ngdc'' [] []
     = Inr (Zero, [])
   \<and> check_date_dirs ex_env (Dates [''2022-05-01'', ''2022-05-03'']) ''/ngdc'' [] []
     = Inr (Inventory ex_items, [Exc IndexError])
   \<and> populate_db ex_env ex_enrich ''r2r@host'' ''/ngdc'' [] = Inl AttributeError
   \<and> connect_to_sftp ex_env ''r2r@host'' ''/elsewhere'' [] = Inr (DatesZero, [])
   \<and> populate_db ex_env ex_enrich ''r2r@host'' ''/elsewhere'' [] = Inl TypeError"
  by code_simp

section \<open>Free space under the cushion\<close>

text \<open>
  C10. When the probe succeeds and reports fewer available bytes than the cushion,
  \<open>landing_space_bytes\<close> returns the single boolean \<open>False\<close>, not a tuple: the
  difference is negative, \<open>convert_size\<close> raises \<open>ValueError\<close> on it inside the
  guarded block, and the handler appends the exception and returns \<open>False\<close>. Indexing
  that result, as the script does with \<open>space_check[1]\<close> and \<open>space_check[0]\<close>,
  raises \<open>TypeError\<close>, and that ends lines 756-762 of the script. And for no input at all does the function return a tuple whose
  flag is \<open>False\<close>: the branch "not enough free space" is never reached.
\<close>

theorem space_below_cushion_returns_false:
  "(returncode df = 0 \<and> first_digits (stdout df) = Some digits
      \<and> dec_val digits < minimum * 1024 * 1024 * 1024 \<longrightarrow>
        landing_space_bytes fp df minimum errs = (SpaceFalse, errs @ [Exc ValueError])
        \<and> space_flag (fst (landing_space_bytes fp df minimum errs)) = Inl TypeError
        \<and> space_free (fst (landing_space_bytes fp df minimum errs)) = Inl TypeError
        \<and> (minimum = 1024 \<longrightarrow> pull_selected fp df choice choices cenv db errs = Inl TypeError))
   \<and> fst (landing_space_bytes fp df minimum errs) \<noteq> SpaceTuple free_space False"
proof (intro conjI impI)
  assume a: "returncode df = 0 \<and> first_digits (stdout df) = Some digits
      \<and> dec_val digits < minimum * 1024 * 1024 * 1024"
  then show r: "landing_space_bytes fp df minimum errs = (SpaceFalse, errs @ [Exc ValueError])"
    by (simp add: landing_space_bytes_def convert_size_def Let_def)
  show "space_flag (fst (landing_space_bytes fp df minimum errs)) = Inl TypeError"
    by (simp add: r space_flag_def)
  show "space_free (fst (landing_space_bytes fp df minimum errs)) = Inl TypeError"
    by (simp add: r space_free_def)
  assume "minimum = 1024"
  with r show "pull_selected fp df choice choices cenv db errs = Inl TypeError"
    by (simp add: pull_selected_def space_flag_def)
next
  show "fst (landing_space_bytes fp df minimum errs) \<noteq> SpaceTuple free_space False"
    by (auto simp: landing_space_bytes_def convert_size_def Let_def
        split: option.splits sum.splits if_splits)
qed

theorem space_below_cushion_returns_false_witness:
  "landing_space_bytes (\<lambda>n. Inr ''x'') df_low 1024 [] = (SpaceFalse, [Exc ValueError])
   \<and> space_flag (fst (landing_space_bytes (\<lambda>n. Inr ''x'') df_low 1024 [])) = Inl TypeError
   \<and> pull_selected (\<lambda>n. Inr ''x'') df_low ''2'' ''1'' ex_copy_env ex_db [] = Inl TypeError"
proof -
  have a: "returncode df_low = 0" by (simp add: df_low_def)
  have b: "first_digits (stdout df_low) = Some ''500000000000''" by code_simp
  have c: "dec_val ''500000000000'' < 1024 * 1024 * 1024 * 1024" by code_simp
  from space_below_cushion_returns_false
    [of df_low "''500000000000''" 1024 "\<lambda>n. Inr ''x''" "[]" "''2''" "''1''" ex_copy_env ex_db 0] a b c
  have h: "landing_space_bytes (\<lambda>n. Inr ''x'') df_low 1024 [] = (SpaceFalse, [] @ [Exc ValueError])"
    and f: "space_flag (fst (landing_space_bytes (\<lambda>n. Inr ''x'') df_low 1024 [])) = Inl TypeError"
    and p: "pull_selected (\<lambda>n. Inr ''x'') df_low ''2'' ''1'' ex_copy_env ex_db [] = Inl TypeError"
    by blast+
  from h have "landing_space_bytes (\<lambda>n. Inr ''x'') df_low 1024 [] = (SpaceFalse, [Exc ValueError])"
    by simp
  with f p show ?thesis by blast
qed

section \<open>The verdict of validation\<close>

lemma check_tarball_grows:
  "check_tarball env landing x errs = Inr errs' \<Longrightarrow> prefix errs errs'"
  by (auto simp: check_tarball_def Let_def split: if_splits list.splits)

lemma validate_loop_grows:
  "validate_loop env landing xs errs = Inr errs' \<Longrightarrow> prefix errs errs'"
proof (induction xs arbitrary: errs)
  case Nil
  then show ?case by simp
next
  case (Cons x xs)
  from Cons.prems obtain errs1 where a: "check_tarball env landing x errs = Inr errs1"
    and b: "validate_loop env landing xs errs1 = Inr errs'"
    by (auto split: sum.splits)
  from check_tarball_grows [OF a] Cons.IH [OF b] show ?case by (rule prefix_order.trans)
qed

lemma check_tarball_fails:
  assumes "missing_manifest env landing x \<or> malformed_token env landing x
             \<or> checksum_mismatch env landing x"
    and "check_tarball env landing x errs = Inr errs'"
  shows "errs' \<noteq> []"
  using assms
  by (auto simp: check_tarball_def Let_def missing_manifest_def malformed_token_def
      checksum_mismatch_def split: if_splits list.splits)

lemma validate_loop_fails:
  assumes "x \<in> set xs"
    and "missing_manifest env landing x \<or> malformed_token env landing x
             \<or> checksum_mismatch env landing x"
    and "validate_loop env landing xs errs = Inr errs'"
  shows "errs' \<noteq> []"
  using assms(1,3)
proof (induction xs arbitrary: errs)
  case Nil
  then show ?case by simp
next
  case (Cons y ys)
  from Cons.prems(2) obtain errs1 where a: "check_tarball env landing y errs = Inr errs1"
    and b: "validate_loop env landing ys errs1 = Inr errs'"
    by (auto split: sum.splits)
  show ?case
  proof (cases "x = y")
    case True
    with check_tarball_fails [OF assms(2)] a have "errs1 \<noteq> []" by simp
    with validate_loop_grows [OF b] show ?thesis by auto
  next
    case False
    with Cons.prems(1) have "x \<in> set ys" by simp
    from Cons.IH [OF this b] show ?thesis .
  qed
qed

lemma check_tarball_ok:
  "archive_ok env landing x \<Longrightarrow> check_tarball env landing x errs = Inr errs"
  by (auto simp: check_tarball_def Let_def archive_ok_def)

lemma validate_loop_ok:
  "\<forall>x \<in> set xs. archive_ok env landing x \<Longrightarrow> validate_loop env landing xs errs = Inr errs"
  by (induction xs) (auto simp: check_tarball_ok)

lemma routed_main:
  assumes "snd (snd (fst (main env db))) \<noteq> []"
  shows "\<exists>errs1 errs2. validate_tarballs env (fst (get_path env [])) errs1 = Inr (True, errs2)"
  using assms
  by (auto simp: main_def sort_landing_zone_def split: prod.splits sum.splits if_splits)

lemma check_tarball_readable:
  "archive_readable env landing x \<Longrightarrow> \<exists>errs'. check_tarball env landing x errs = Inr errs'"
  by (auto simp: check_tarball_def Let_def archive_readable_def split: list.splits)

lemma validate_loop_readable:
  "\<forall>x \<in> set xs. archive_readable env landing x \<Longrightarrow>
     \<exists>errs'. validate_loop env landing xs errs = Inr errs'"
proof (induction xs arbitrary: errs)
  case Nil
  then show ?case by simp
next
  case (Cons x xs)
  then have "archive_readable env landing x" by simp
  from check_tarball_readable [OF this, of errs] obtain errs1
    where "check_tarball env landing x errs = Inr errs1" by blast
  moreover from Cons obtain errs' where "validate_loop env landing xs errs1 = Inr errs'"
    by fastforce
  ultimately show ?case by simp
qed

lemma validate_never_true:
  assumes "x \<in> set (batch env (Some landing))"
    and "missing_manifest env landing x \<or> malformed_token env landing x
             \<or> checksum_mismatch env landing x"
  shows "validate_tarballs env (Some landing) errs \<noteq> Inr (True, errs')"
proof
  assume "validate_tarballs env (Some landing) errs = Inr (True, errs')"
  then have "validate_loop env landing (batch env (Some landing)) errs = Inr errs'" and "errs' = []"
    by (auto simp: validate_tarballs_def split: sum.splits)
  with validate_loop_fails [OF assms] show False by blast
qed

text \<open>
  What validation does guarantee. If one archive of the batch in the landing directory
  fails validation (its manifest is missing, its manifest holds no word of 32 characters
  first, or that word is not the checksum \<open>md5sum\<close> computes), then
  \<open>validate_tarballs\<close> does not return \<open>True\<close>: it returns \<open>False\<close>, unless an
  exception leaves it first (a manifest without a word, an \<open>md5sum\<close> without output,
  an archive that does not decompress), which ends \<open>main\<close> before the sort; when
  no archive of the batch raises, it returns \<open>False\<close>. In both cases \<open>main\<close> places
  no archive of the batch.
\<close>

lemma failed_archive_never_valid:
  assumes "x \<in> set (batch env (Some landing))"
    and "missing_manifest env landing x \<or> malformed_token env landing x
             \<or> checksum_mismatch env landing x"
  shows "((\<exists>e. validate_tarballs env (Some landing) errs = Inl e)
           \<or> (\<exists>errs'. validate_tarballs env (Some landing) errs = Inr (False, errs')))
       \<and> ((\<forall>y \<in> set (batch env (Some landing)). archive_readable env landing y) \<longrightarrow>
            (\<exists>errs'. validate_tarballs env (Some landing) errs = Inr (False, errs')))
       \<and> (fst (get_path env []) = Some landing \<longrightarrow> snd (snd (fst (main env db))) = [])"
proof (intro conjI)
  have never: "validate_tarballs env (Some landing) errs \<noteq> Inr (True, errs')" for errs'
    by (rule validate_never_true [OF assms])
  show "(\<forall>y \<in> set (batch env (Some landing)). archive_readable env landing y) \<longrightarrow>
            (\<exists>errs'. validate_tarballs env (Some landing) errs = Inr (False, errs'))"
  proof
    assume "\<forall>y \<in> set (batch env (Some landing)). archive_readable env landing y"
    from validate_loop_readable [OF this, of errs] obtain errs1
      where "validate_loop env landing (batch env (Some landing)) errs = Inr errs1" by blast
    then have "validate_tarballs env (Some landing) errs = Inr (\<not> length errs1 > 0, errs1)"
      by (simp add: validate_tarballs_def)
    with never [of errs1] show "\<exists>errs'. validate_tarballs env (Some landing) errs = Inr (False, errs')"
      by (cases "length errs1 > 0") auto
  qed
  have "validate_tarballs env (Some landing) errs \<noteq> Inr (True, errs')" for errs'
    by (rule validate_never_true [OF assms])
  then show "(\<exists>e. validate_tarballs env (Some landing) errs = Inl e)
           \<or> (\<exists>errs'. validate_tarballs env (Some landing) errs = Inr (False, errs'))"
    by (cases "validate_tarballs env (Some landing) errs") auto
  show "fst (get_path env []) = Some landing \<longrightarrow> snd (snd (fst (main env db))) = []"
  proof (rule impI, rule ccontr)
    assume p: "fst (get_path env []) = Some landing" and "snd (snd (fst (main env db))) \<noteq> []"
    from routed_main [OF this(2)] obtain errs1 errs2
      where "validate_tarballs env (Some landing) errs1 = Inr (True, errs2)" by (auto simp: p)
    with validate_never_true [OF assms] show False by blast
  qed
qed

lemma mismatch_second_archive:
  "checksum_mismatch ex_batch_env ''/landing'' ''CRUISE_12345_02.tar''"
proof -
  have f: "isfile ex_batch_env (canonical_path ''/landing'' ''CRUISE_12345_02.tar'' @ ''.md5'')"
    by code_simp
  have m: "split_ws (read_file ex_batch_env (canonical_path ''/landing'' ''CRUISE_12345_02.tar'' @ ''.md5''))
            = ''00000000000000000000000000000000'' # [''CRUISE_12345_02.tar'']" by code_simp
  have c: "split_ws (stdout (md5sum ex_batch_env (canonical_path ''/landing'' ''CRUISE_12345_02.tar'')))
            = ''d41d8cd98f00b204e9800998ecf8427e'' # [''/landing/CRUISE_12345_02.tar'']" by code_simp
  have ne: "''00000000000000000000000000000000'' \<noteq> ''d41d8cd98f00b204e9800998ecf8427e''" by simp
  show ?thesis unfolding checksum_mismatch_def using f m c ne by blast
qed

lemma failed_archive_never_valid_example:
  "validate_tarballs ex_batch_env (Some ''/landing'') [] = Inr (False, [Msg ''Fail''])
   \<and> snd (snd (fst (main ex_batch_env ex_db))) = []
   \<and> snd (snd (fst (main ex_sort_env ex_db))) = [(''CRUISE_12345_01.tar'', ''<NCEI_LANDING_SPACE>'')]"
proof -
  have x: "''CRUISE_12345_02.tar'' \<in> set (batch ex_batch_env (Some ''/landing''))" by code_simp
  have g: "fst (get_path ex_batch_env []) = Some ''/landing''" by code_simp
  have v: "validate_tarballs ex_batch_env (Some ''/landing'') [] = Inr (False, [Msg ''Fail''])"
    by code_simp
  have s: "snd (snd (fst (main ex_sort_env ex_db))) = [(''CRUISE_12345_01.tar'', ''<NCEI_LANDING_SPACE>'')]"
    by code_simp
  from failed_archive_never_valid [OF x, of "[]" ex_db] mismatch_second_archive g v s
  show ?thesis by blast
qed

text \<open>
  C2. Validation does not always report a failed batch invalid. In a batch of three
  archives the manifest of the second holds a checksum that is not the one
  \<open>md5sum\<close> computes, and the manifest of the third holds a line feed only: the second
  archive fails by checksum mismatch and the third by a malformed checksum token (its
  manifest has no first word of 32 characters). \<open>validate_tarballs\<close> records the
  mismatch, then \<open>fid.read().split()[0]\<close> (line 264) raises \<open>IndexError\<close> on the
  third manifest, which nothing catches: the function returns no verdict and \<open>main\<close>
  ends with the exception before \<open>sort_landing_zone\<close> is called. No archive is
  routed, but the batch is not reported invalid. Without the third manifest's fault the
  same batch is reported invalid.
\<close>

theorem blank_manifest_raises:
  "batch ex_blank_env (Some ''/landing'')
     = [''CRUISE_12345_01.tar'', ''CRUISE_12345_02.tar'', ''CRUISE_12345_03.tar'']
   \<and> checksum_mismatch ex_blank_env ''/landing'' ''CRUISE_12345_02.tar''
   \<and> malformed_token ex_blank_env ''/landing'' ''CRUISE_12345_03.tar''
   \<and> check_tarball ex_blank_env ''/landing'' ''CRUISE_12345_03.tar'' [] = Inl IndexError
   \<and> validate_tarballs ex_blank_env (Some ''/landing'') [] = Inl IndexError
   \<and> main ex_blank_env ex_db = ((Some IndexError, [], []), ex_db)
   \<and> validate_tarballs ex_batch_env (Some ''/landing'') [] = Inr (False, [Msg ''Fail''])"
proof (intro conjI)
  show "batch ex_blank_env (Some ''/landing'')
     = [''CRUISE_12345_01.tar'', ''CRUISE_12345_02.tar'', ''CRUISE_12345_03.tar'']" by code_simp
  have f: "isfile ex_blank_env (canonical_path ''/landing'' ''CRUISE_12345_02.tar'' @ ''.md5'')"
    by code_simp
  have m: "split_ws (read_file ex_blank_env (canonical_path ''/landing'' ''CRUISE_12345_02.tar'' @ ''.md5''))
            = ''00000000000000000000000000000000'' # [''CRUISE_12345_02.tar'']" by code_simp
  have c: "split_ws (stdout (md5sum ex_blank_env (canonical_path ''/landing'' ''CRUISE_12345_02.tar'')))
            = ''d41d8cd98f00b204e9800998ecf8427e'' # [''/landing/CRUISE_12345_02.tar'']" by code_simp
  have ne: "''00000000000000000000000000000000'' \<noteq> ''d41d8cd98f00b204e9800998ecf8427e''" by simp
  show "checksum_mismatch ex_blank_env ''/landing'' ''CRUISE_12345_02.tar''"
    unfolding checksum_mismatch_def using f m c ne by blast
  show "malformed_token ex_blank_env ''/landing'' ''CRUISE_12345_03.tar''" by code_simp
  show "check_tarball ex_blank_env ''/landing'' ''CRUISE_12345_03.tar'' [] = Inl IndexError"
    by code_simp
  show "validate_tarballs ex_blank_env (Some ''/landing'') [] = Inl IndexError" by code_simp
  show "main ex_blank_env ex_db = ((Some IndexError, [], []), ex_db)" by code_simp
  show "validate_tarballs ex_batch_env (Some ''/landing'') [] = Inr (False, [Msg ''Fail''])"
    by code_simp
qed

text \<open>
  C9. \<open>validate_tarballs\<close> returns \<open>True\<close> exactly when the global list \<open>errors\<close>
  is empty once the archives are processed, and that list still holds whatever was
  appended before the call. So the verdict for a batch in which every archive passes is
  \<open>True\<close> only if the list was empty at the call: with an error recorded earlier, the
  same batch is reported invalid.
\<close>

theorem verdict_reads_global_errors:
  "(validate_tarballs env landing_path errs = Inr (verdict, errs') \<longrightarrow>
        verdict = (errs' = []) \<and> prefix errs errs' \<and> (errs \<noteq> [] \<longrightarrow> \<not> verdict))
   \<and> ((\<forall>x \<in> set (batch env (Some landing)). archive_ok env landing x) \<longrightarrow>
        validate_tarballs env (Some landing) errs = Inr (errs = [], errs))"
proof (intro conjI impI)
  assume v: "validate_tarballs env landing_path errs = Inr (verdict, errs')"
  show 1: "verdict = (errs' = [])"
    using v by (auto simp: validate_tarballs_def split: option.splits sum.splits if_splits)
  show 2: "prefix errs errs'"
    using v validate_loop_grows
    by (auto simp: validate_tarballs_def split: option.splits sum.splits if_splits)
  assume "errs \<noteq> []"
  with 1 2 show "\<not> verdict" by auto
next
  assume "\<forall>x \<in> set (batch env (Some landing)). archive_ok env landing x"
  then show "validate_tarballs env (Some landing) errs = Inr (errs = [], errs)"
    by (simp add: validate_tarballs_def validate_loop_ok)
qed

theorem verdict_reads_global_errors_witness:
  "validate_tarballs ex_sort_env (Some ''/landing'') [] = Inr (True, [])
   \<and> validate_tarballs ex_sort_env (Some ''/landing'') [Exc ValueError] = Inr (False, [Exc ValueError])"
proof -
  have b: "batch ex_sort_env (Some ''/landing'') = [''CRUISE_12345_01.tar'']" by code_simp
  have g: "\<not> endswith (path_join ''/landing'' ''CRUISE_12345_01.tar'') ''.gz''" by code_simp
  have f: "isfile ex_sort_env (canonical_path ''/landing'' ''CRUISE_12345_01.tar'' @ ''.md5'')"
    by code_simp
  have e: "stderr (md5sum ex_sort_env (canonical_path ''/landing'' ''CRUISE_12345_01.tar'')) = []"
    by code_simp
  have m: "split_ws (read_file ex_sort_env (canonical_path ''/landing'' ''CRUISE_12345_01.tar'' @ ''.md5''))
            = ''d41d8cd98f00b204e9800998ecf8427e'' # [''CRUISE_12345_01.tar'']" by code_simp
  have c: "split_ws (stdout (md5sum ex_sort_env (canonical_path ''/landing'' ''CRUISE_12345_01.tar'')))
            = ''d41d8cd98f00b204e9800998ecf8427e'' # [''/landing/CRUISE_12345_01.tar'']" by code_simp
  have l: "length ''d41d8cd98f00b204e9800998ecf8427e'' = 32" by simp
  have ok: "archive_ok ex_sort_env ''/landing'' ''CRUISE_12345_01.tar''"
    unfolding archive_ok_def using g f e m c l by blast
  then have all: "\<forall>x \<in> set (batch ex_sort_env (Some ''/landing'')). archive_ok ex_sort_env ''/landing'' x"
    by (simp add: b)
  from verdict_reads_global_errors [of ex_sort_env "Some ''/landing''" "[]" True "[]" "''/landing''"] all
  have 1: "validate_tarballs ex_sort_env (Some ''/landing'') [] = Inr ([] = ([] :: diag list), [])"
    by blast
  from verdict_reads_global_errors [of ex_sort_env "Some ''/landing''" "[Exc ValueError]" True "[]" "''/landing''"] all
  have 2: "validate_tarballs ex_sort_env (Some ''/landing'') [Exc ValueError]
             = Inr ([Exc ValueError] = ([] :: diag list), [Exc ValueError])"
    by blast
  from 1 2 show ?thesis by simp
qed

section \<open>Where the status of a row changes\<close>








end
